theory Spec2Isabelle
  imports Complex_Main
begin

section \<open>Numbers and errors\<close>

text \<open>
  The simulation computes with Python floats. They are modelled as the reals: rounding,
  infinities and NaN are outside the model, and every statement below is about the
  arithmetic the code writes down, carried out exactly. Python exceptions are values of
  \<open>py_error\<close>; a function that can raise returns \<open>py_error + 'a\<close>.
\<close>

datatype py_error = IndexError | ValueError | AttributeError | ZeroDivisionError

section \<open>grid\_model.py\<close>

subsection \<open>PowerPlant\<close>

record PowerPlant =
  name :: string
  plant_type :: string
  p_max :: real
  p_min :: real
  cost_per_mw :: real
  co2_per_mw :: real
  ramp_rate :: real
  current_power :: real
  is_on :: bool

text \<open>The constructor: a plant starts switched off, at output 0.\<close>

definition PowerPlant_init ::
  "string \<Rightarrow> string \<Rightarrow> real \<Rightarrow> real \<Rightarrow> real \<Rightarrow> real \<Rightarrow> real \<Rightarrow> PowerPlant" where
  "PowerPlant_init nm ty pmax pmin cost co2 ramp =
     \<lparr>name = nm, plant_type = ty, p_max = pmax, p_min = pmin, cost_per_mw = cost,
      co2_per_mw = co2, ramp_rate = ramp, current_power = 0, is_on = False\<rparr>"

text \<open>
  The target after "Constraint 1": a target strictly between 0 and \<open>p_min\<close> becomes 0,
  then the target is capped at \<open>p_max\<close>. There is no lower cap.
\<close>

definition clamp_target :: "PowerPlant \<Rightarrow> real \<Rightarrow> real" where
  "clamp_target self target_power =
     min (if target_power > 0 \<and> target_power < p_min self then 0 else target_power)
         (p_max self)"

text \<open>The variation after "Constraint 2": limited to the ramp rate in either direction.\<close>

definition ramp_delta :: "PowerPlant \<Rightarrow> real \<Rightarrow> real" where
  "ramp_delta self target =
     (let d = target - current_power self
      in if \<bar>d\<bar> > ramp_rate self
         then (if d > 0 then ramp_rate self else - ramp_rate self)
         else d)"

text \<open>
  \<open>step_power\<close> returns the pair (hourly cost, hourly CO2) and the updated plant
  (the Python method mutates \<open>self\<close>).
\<close>

definition step_power :: "PowerPlant \<Rightarrow> real \<Rightarrow> (real \<times> real) \<times> PowerPlant" where
  "step_power self target_power =
     (let target = clamp_target self target_power;
          cp = current_power self + ramp_delta self target;
          self' = self\<lparr>current_power := cp, is_on := (cp > 0)\<rparr>
      in ((current_power self' * cost_per_mw self', current_power self' * co2_per_mw self'),
          self'))"


text \<open>The nuclear plant as \<open>SmartGridEnv.reset\<close> configures it.\<close>

definition nuclear_plant :: PowerPlant where
  "nuclear_plant = PowerPlant_init ''Nuclear Plant'' ''nuclear'' 300 150 20 0.01 20"

definition gas_plant :: PowerPlant where
  "gas_plant = PowerPlant_init ''Gas Plant'' ''gas'' 100 0 150 0.8 100"

subsection \<open>Consumer\<close>

record Consumer =
  name :: string
  base_load :: real
  current_load :: real

definition Consumer_init :: "string \<Rightarrow> real \<Rightarrow> Consumer" where
  "Consumer_init nm bl = \<lparr>name = nm, base_load = bl, current_load = bl\<rparr>"

definition update_load :: "Consumer \<Rightarrow> real \<Rightarrow> Consumer" where
  "update_load self new_load = self\<lparr>current_load := new_load\<rparr>"

subsection \<open>Grid\<close>

record Grid =
  plants :: "PowerPlant list"
  consumers :: "Consumer list"

definition Grid_init :: Grid where
  "Grid_init = \<lparr>plants = [], consumers = []\<rparr>"

definition add_plant :: "Grid \<Rightarrow> PowerPlant \<Rightarrow> Grid" where
  "add_plant self plant = self\<lparr>plants := plants self @ [plant]\<rparr>"

definition add_consumer :: "Grid \<Rightarrow> Consumer \<Rightarrow> Grid" where
  "add_consumer self consumer = self\<lparr>consumers := consumers self @ [consumer]\<rparr>"

text \<open>The dictionary \<open>step_balance\<close> returns has six fixed keys: a record.\<close>

record balance =
  total_production :: real
  total_demand :: real
  delta :: real
  is_blackout :: bool
  unmet_demand :: real
  wasted_energy :: real

definition step_balance :: "Grid \<Rightarrow> balance" where
  "step_balance self =
     (let total_prod = sum_list (map current_power (plants self));
          total_dem = sum_list (map current_load (consumers self));
          d = total_prod - total_dem;
          blackout = (d < 0)
      in \<lparr>total_production = total_prod, total_demand = total_dem, delta = d,
          is_blackout = blackout,
          unmet_demand = (if blackout then \<bar>d\<bar> else 0),
          wasted_energy = (if d > 0 then d else 0)\<rparr>)"

section \<open>stochastic\_engine.py\<close>

subsection \<open>The numpy functions the engine calls\<close>

text \<open>
  \<open>numpy.linspace start stop num\<close> (endpoint included): a negative \<open>num\<close> is a
  ValueError; otherwise sample \<open>i\<close> is \<open>i * step + start\<close> with
  \<open>step = (stop - start) / (num - 1)\<close> (the difference itself when \<open>num - 1 = 0\<close>), and
  the last of more than one sample is set to \<open>stop\<close>.
\<close>

definition linspace :: "real \<Rightarrow> real \<Rightarrow> int \<Rightarrow> py_error + real list" where
  "linspace start stop num =
     (if num < 0 then Inl ValueError
      else let n = nat num;
               step = (if n - 1 > 0 then (stop - start) / real (n - 1) else stop - start);
               y = map (\<lambda>i. real i * step + start) [0..<n]
           in Inr (if n > 1 then y[n - 1 := stop] else y))"

text \<open>
  The random generator is a state of type \<open>'g\<close> with one primitive, a parameter of the
  model: \<open>gauss\<close> draws one standard normal value and returns the next state.
  \<open>Generator.normal loc scale\<close> with an array \<open>scale\<close> rejects a negative entry with
  a ValueError before it draws, and otherwise draws one standard normal value per entry,
  in order, returning \<open>loc + scale * z\<close> for each.
\<close>

fun draw_normals :: "('g \<Rightarrow> real \<times> 'g) \<Rightarrow> 'g \<Rightarrow> real \<Rightarrow> real list \<Rightarrow> real list \<times> 'g" where
  "draw_normals gauss g loc [] = ([], g)"
| "draw_normals gauss g loc (s # ss) =
     (let (z, g') = gauss g;
          (xs, g'') = draw_normals gauss g' loc ss
      in ((loc + s * z) # xs, g''))"

definition rng_normal ::
  "('g \<Rightarrow> real \<times> 'g) \<Rightarrow> 'g \<Rightarrow> real \<Rightarrow> real list \<Rightarrow> py_error + (real list \<times> 'g)" where
  "rng_normal gauss g loc scale =
     (if \<exists>s\<in>set scale. s < 0 then Inl ValueError
      else Inr (draw_normals gauss g loc scale))"

subsection \<open>StochasticProfile\<close>

text \<open>
  The three profiles hold the same generator object as the engine; the model keeps the
  one generator state in the engine and threads it through every call.
\<close>

record StochasticProfile =
  base_profile :: "real list"
  noise_volatility :: real

definition hours :: "int \<Rightarrow> int \<Rightarrow> nat list" where
  "hours current_hour horizon = map (\<lambda>i. nat ((current_hour + i) mod 24)) [0..horizon]"

definition get_actual_and_forecast ::
  "('g \<Rightarrow> real \<times> 'g) \<Rightarrow> StochasticProfile \<Rightarrow> 'g \<Rightarrow> int \<Rightarrow> int
     \<Rightarrow> py_error + ((real \<times> real list) \<times> 'g)" where
  "get_actual_and_forecast gauss self g current_hour horizon =
     (let hs = hours current_hour horizon in
      if \<exists>h\<in>set hs. length (base_profile self) \<le> h then Inl IndexError
      else
        let trend = map (\<lambda>h. base_profile self ! h) hs in
        case linspace (1/2) 3 (horizon + 1) of
          Inl e \<Rightarrow> Inl e
        | Inr uncertainty_growth \<Rightarrow>
            let noise_std = map2 (\<lambda>t u. noise_volatility self * t * u) trend uncertainty_growth in
            (case rng_normal gauss g 0 noise_std of
               Inl e \<Rightarrow> Inl e
             | Inr (noise, g') \<Rightarrow>
                 let vals = map (max 0) (map2 (+) trend noise) in
                 (case vals of
                    [] \<Rightarrow> Inl IndexError
                  | actual_value # forecast \<Rightarrow> Inr ((actual_value, forecast), g'))))"

subsection \<open>StochasticEngine\<close>

record 'g StochasticEngine =
  rng :: 'g
  demand :: StochasticProfile
  solar :: StochasticProfile
  wind :: StochasticProfile

definition demand_profile :: "real list" where
  "demand_profile = [0.6, 0.55, 0.5, 0.5, 0.55, 0.65, 0.8, 0.9, 0.95, 0.9, 0.85, 0.85,
                     0.85, 0.85, 0.85, 0.85, 0.9, 0.95, 1.0, 0.95, 0.9, 0.8, 0.7, 0.65]"

definition solar_profile :: "real list" where
  "solar_profile = [0.0, 0.0, 0.0, 0.0, 0.0, 0.0, 0.1, 0.3, 0.6, 0.8, 0.9, 1.0,
                    1.0, 0.9, 0.8, 0.6, 0.3, 0.1, 0.0, 0.0, 0.0, 0.0, 0.0, 0.0]"

definition wind_profile :: "real list" where
  "wind_profile = replicate 24 0.5"

text \<open>
  \<open>numpy.random.default_rng seed\<close> is a parameter: for an integer seed it gives the
  generator state, or rejects the seed. With no seed the generator is seeded from the
  operating system; that state is the explicit input \<open>entropy\<close>.
\<close>

definition StochasticEngine_init ::
  "(int \<Rightarrow> py_error + 'g) \<Rightarrow> int option \<Rightarrow> 'g \<Rightarrow> py_error + 'g StochasticEngine" where
  "StochasticEngine_init default_rng seed entropy =
     (case (case seed of None \<Rightarrow> Inr entropy | Some s \<Rightarrow> default_rng s) of
        Inl e \<Rightarrow> Inl e
      | Inr g \<Rightarrow>
          Inr \<lparr>rng = g,
               demand = \<lparr>base_profile = demand_profile, noise_volatility = 0.05\<rparr>,
               solar = \<lparr>base_profile = solar_profile, noise_volatility = 0.15\<rparr>,
               wind = \<lparr>base_profile = wind_profile, noise_volatility = 0.25\<rparr>\<rparr>)"

text \<open>The nested dictionary \<open>step_weather_and_demand\<close> returns, with its fixed keys.\<close>

record weather =
  actual_demand :: real
  actual_solar :: real
  actual_wind :: real
  forecast_demand :: "real list"
  forecast_solar :: "real list"
  forecast_wind :: "real list"

definition step_weather_and_demand ::
  "('g \<Rightarrow> real \<times> 'g) \<Rightarrow> 'g StochasticEngine \<Rightarrow> int \<Rightarrow> int
     \<Rightarrow> py_error + (weather \<times> 'g StochasticEngine)" where
  "step_weather_and_demand gauss self current_hour horizon =
     (case get_actual_and_forecast gauss (demand self) (rng self) current_hour horizon of
        Inl e \<Rightarrow> Inl e
      | Inr ((a_demand, f_demand), g1) \<Rightarrow>
     (case get_actual_and_forecast gauss (solar self) g1 current_hour horizon of
        Inl e \<Rightarrow> Inl e
      | Inr ((a_solar, f_solar), g2) \<Rightarrow>
     (case get_actual_and_forecast gauss (wind self) g2 current_hour horizon of
        Inl e \<Rightarrow> Inl e
      | Inr ((a_wind, f_wind), g3) \<Rightarrow>
          Inr (\<lparr>actual_demand = a_demand, actual_solar = a_solar, actual_wind = a_wind,
                forecast_demand = f_demand, forecast_solar = f_solar,
                forecast_wind = f_wind\<rparr>,
               self\<lparr>rng := g3\<rparr>))))"

section \<open>smart\_grid\_env.py\<close>

text \<open>
  The attributes \<open>reset\<close> creates (they do not exist on an environment that was never
  reset) are grouped in the record \<open>episode\<close>; the environment holds an optional one.
  The attributes the constructor sets are always there.
\<close>

record 'g episode =
  current_step :: int
  engine :: "'g StochasticEngine"
  grid :: Grid
  solar_capacity :: real
  wind_capacity :: real
  city_base_load :: real
  current_weather :: weather

record 'g SmartGridEnv =
  render_mode :: "string option"
  num_controllable_plants :: nat
  forecast_horizon :: int
  max_steps :: int
  episode :: "'g episode option"

definition SmartGridEnv_init :: "string option \<Rightarrow> 'g SmartGridEnv" where
  "SmartGridEnv_init rm =
     \<lparr>render_mode = rm, num_controllable_plants = 3, forecast_horizon = 12, max_steps = 24,
      episode = None\<rparr>"

text \<open>The info dictionary; the key \<open>is_blackout\<close> is added by \<open>step\<close> only.\<close>

record info =
  demand_forecast :: "real list"
  solar_forecast :: "real list"
  wind_forecast :: "real list"
  total_generation :: real
  current_demand :: real
  solar_power :: real
  wind_power :: real
  plants_status :: "(string \<times> string \<times> real \<times> real) list"
  is_blackout :: "bool option"

record step_result =
  observation :: "real list"
  reward :: real
  terminated :: bool
  truncated :: bool
  info :: info

text \<open>
  \<open>_update_stochastic_elements\<close>: the consumer at index 0 takes the realised demand,
  the plants at indices 3 and 4 are stepped towards the realised solar and wind output.
  A missing index is an IndexError.
\<close>

definition update_stochastic_elements :: "'g episode \<Rightarrow> py_error + 'g episode" where
  "update_stochastic_elements ep =
     (let a_demand = actual_demand (current_weather ep) * city_base_load ep in
      case consumers (grid ep) of
        [] \<Rightarrow> Inl IndexError
      | c # cs \<Rightarrow>
          let g1 = (grid ep)\<lparr>consumers := update_load c a_demand # cs\<rparr>;
              a_solar = actual_solar (current_weather ep) * solar_capacity ep;
              a_wind = actual_wind (current_weather ep) * wind_capacity ep
          in if length (plants g1) \<le> 3 then Inl IndexError
             else
               let g2 = g1\<lparr>plants := (plants g1)[3 := snd (step_power (plants g1 ! 3) a_solar)]\<rparr>
               in if length (plants g2) \<le> 4 then Inl IndexError
                  else Inr (ep\<lparr>grid :=
                    g2\<lparr>plants := (plants g2)[4 := snd (step_power (plants g2 ! 4) a_wind)]\<rparr>\<rparr>))"

text \<open>
  \<open>_get_obs\<close>: the divisions raise on a zero divisor. The conversion of the vector to
  32-bit floats is not modelled.
\<close>

definition get_obs :: "'g SmartGridEnv \<Rightarrow> 'g episode \<Rightarrow> py_error + real list" where
  "get_obs self ep =
     (if \<exists>p\<in>set (plants (grid ep)). p_max p = 0 then Inl ZeroDivisionError
      else if max_steps self = 0 then Inl ZeroDivisionError
      else Inr (map (\<lambda>p. current_power p / p_max p) (plants (grid ep))
                @ [actual_wind (current_weather ep), actual_solar (current_weather ep),
                   actual_demand (current_weather ep)]
                @ forecast_wind (current_weather ep)
                @ forecast_solar (current_weather ep)
                @ forecast_demand (current_weather ep)
                @ [real_of_int (current_step ep) / real_of_int (max_steps self)]))"

definition get_info :: "'g episode \<Rightarrow> py_error + info" where
  "get_info ep =
     (if consumers (grid ep) = [] then Inl IndexError
      else if length (plants (grid ep)) \<le> 4 then Inl IndexError
      else Inr
        \<lparr>demand_forecast = map (\<lambda>x. x * city_base_load ep) (forecast_demand (current_weather ep)),
         solar_forecast = map (\<lambda>x. x * solar_capacity ep) (forecast_solar (current_weather ep)),
         wind_forecast = map (\<lambda>x. x * wind_capacity ep) (forecast_wind (current_weather ep)),
         total_generation = sum_list (map current_power (plants (grid ep))),
         current_demand = current_load (consumers (grid ep) ! 0),
         solar_power = current_power (plants (grid ep) ! 3),
         wind_power = current_power (plants (grid ep) ! 4),
         plants_status =
           map (\<lambda>p. (PowerPlant.name p, plant_type p, current_power p, p_max p))
             (plants (grid ep)),
         is_blackout = None\<rparr>)"

text \<open>The grid \<open>reset\<close> builds: three controllable plants, two renewable ones, one city.\<close>

definition initial_grid :: Grid where
  "initial_grid =
     add_consumer
       (add_plant
         (add_plant
           (add_plant
             (add_plant
               (add_plant Grid_init
                 (PowerPlant_init ''Gas Plant'' ''gas'' 100 0 150 0.8 100))
               (PowerPlant_init ''Coal Plant'' ''coal'' 150 0 50 1.2 50))
             (PowerPlant_init ''Nuclear Plant'' ''nuclear'' 300 150 20 0.01 20))
           (PowerPlant_init ''Solar Farm'' ''solar'' 150 0 0 0 999))
         (PowerPlant_init ''Wind Farm'' ''wind'' 100 0 0 0 999))
       (Consumer_init ''Main City'' 400)"

text \<open>
  \<open>reset\<close> returns the pair (observation, info) and the environment with its new
  episode. The call of the base class's \<open>reset\<close> seeds a generator of the base class
  that this class never reads; it rejects the seeds that \<open>default_rng\<close> rejects, so
  its only visible effect is the error the parameter \<open>default_rng\<close> already returns. The
  argument \<open>options\<close> is not read.
\<close>

definition reset ::
  "(int \<Rightarrow> py_error + 'g) \<Rightarrow> ('g \<Rightarrow> real \<times> 'g) \<Rightarrow> 'g SmartGridEnv \<Rightarrow> int option \<Rightarrow> 'g
     \<Rightarrow> py_error + ((real list \<times> info) \<times> 'g SmartGridEnv)" where
  "reset default_rng gauss self seed entropy =
     (case StochasticEngine_init default_rng seed entropy of
        Inl e \<Rightarrow> Inl e
      | Inr eng \<Rightarrow>
     (case step_weather_and_demand gauss eng 0 (forecast_horizon self) of
        Inl e \<Rightarrow> Inl e
      | Inr (w, eng') \<Rightarrow>
     (case update_stochastic_elements
             \<lparr>current_step = 0, engine = eng', grid = initial_grid, solar_capacity = 150,
              wind_capacity = 100, city_base_load = 400, current_weather = w\<rparr> of
        Inl e \<Rightarrow> Inl e
      | Inr ep \<Rightarrow>
     (case get_obs self ep of
        Inl e \<Rightarrow> Inl e
      | Inr obs \<Rightarrow>
     (case get_info ep of
        Inl e \<Rightarrow> Inl e
      | Inr info_dict \<Rightarrow> Inr ((obs, info_dict), self\<lparr>episode := Some ep\<rparr>))))))"

text \<open>
  The loop of \<open>step\<close> over the controllable plants, one index at a time, with the grid
  and the two running totals as the loop state.
\<close>

fun apply_actions ::
  "real list \<Rightarrow> nat list \<Rightarrow> Grid \<times> real \<times> real \<Rightarrow> py_error + (Grid \<times> real \<times> real)" where
  "apply_actions action [] acc = Inr acc"
| "apply_actions action (i # rest) (g, total_financial_cost, total_co2_emissions) =
     (if length (plants g) \<le> i then Inl IndexError
      else if length action \<le> i then Inl IndexError
      else
        let plant = plants g ! i;
            target_power = action ! i * p_max plant;
            ((cost, co2), plant') = step_power plant target_power
        in apply_actions action rest
             (g\<lparr>plants := (plants g)[i := plant']\<rparr>,
              total_financial_cost + cost, total_co2_emissions + co2))"

definition step ::
  "('g \<Rightarrow> real \<times> 'g) \<Rightarrow> 'g SmartGridEnv \<Rightarrow> real list
     \<Rightarrow> py_error + (step_result \<times> 'g SmartGridEnv)" where
  "step gauss self action =
     (case episode self of
        None \<Rightarrow> Inl AttributeError
      | Some ep0 \<Rightarrow>
     (let turn = current_step ep0 + 1 in
      case apply_actions action [0..<num_controllable_plants self] (grid ep0, 0, 0) of
        Inl e \<Rightarrow> Inl e
      | Inr (g, total_financial_cost, total_co2_emissions) \<Rightarrow>
     (case step_weather_and_demand gauss (engine ep0) turn (forecast_horizon self) of
        Inl e \<Rightarrow> Inl e
      | Inr (w, eng) \<Rightarrow>
     (case update_stochastic_elements
             (ep0\<lparr>current_step := turn, grid := g, engine := eng, current_weather := w\<rparr>) of
        Inl e \<Rightarrow> Inl e
      | Inr ep \<Rightarrow>
     (let bal = step_balance (grid ep);
          rew = - ((0.1 * total_financial_cost) + (0.1 * total_co2_emissions)
                    + (0.5 * wasted_energy bal) + (100 * unmet_demand bal))
      in case get_info ep of
           Inl e \<Rightarrow> Inl e
         | Inr info_dict \<Rightarrow>
        (case get_obs self ep of
           Inl e \<Rightarrow> Inl e
         | Inr obs \<Rightarrow>
             Inr (\<lparr>observation = obs, reward = rew, terminated = False,
                   truncated = (current_step ep \<ge> max_steps self),
                   info = info_dict\<lparr>is_blackout := Some (balance.is_blackout bal)\<rparr>\<rparr>,
                  self\<lparr>episode := Some ep\<rparr>)))))))"

text \<open>
  A run of \<open>step\<close> calls: the results of the calls that returned, then the environment
  after the last call, or the exception that ended the run.
\<close>

fun run_steps ::
  "('g \<Rightarrow> real \<times> 'g) \<Rightarrow> 'g SmartGridEnv \<Rightarrow> real list list
     \<Rightarrow> step_result list \<times> (py_error + 'g SmartGridEnv)" where
  "run_steps gauss self [] = ([], Inr self)"
| "run_steps gauss self (a # as) =
     (case step gauss self a of
        Inl e \<Rightarrow> ([], Inl e)
      | Inr (r, self') \<Rightarrow>
          (let (rs, fin) = run_steps gauss self' as in (r # rs, fin)))"

text \<open>One episode from the caller's side: \<open>reset\<close>, then the \<open>step\<close> calls.\<close>

definition run_episode ::
  "(int \<Rightarrow> py_error + 'g) \<Rightarrow> ('g \<Rightarrow> real \<times> 'g) \<Rightarrow> 'g SmartGridEnv \<Rightarrow> int option \<Rightarrow> 'g
     \<Rightarrow> real list list
     \<Rightarrow> py_error + ((real list \<times> info) \<times> step_result list \<times> (py_error + 'g SmartGridEnv))" where
  "run_episode default_rng gauss self seed entropy actions =
     (case reset default_rng gauss self seed entropy of
        Inl e \<Rightarrow> Inl e
      | Inr (oi, self') \<Rightarrow> Inr (oi, run_steps gauss self' actions))"

section \<open>Notions used to state the properties\<close>


text \<open>The static configuration of a plant and of a consumer.\<close>

definition plant_config ::
  "PowerPlant \<Rightarrow> string \<times> string \<times> real \<times> real \<times> real \<times> real \<times> real" where
  "plant_config p =
     (PowerPlant.name p, plant_type p, p_max p, p_min p, cost_per_mw p, co2_per_mw p,
      ramp_rate p)"

definition consumer_config :: "Consumer \<Rightarrow> string \<times> real" where
  "consumer_config c = (Consumer.name c, base_load c)"

text \<open>
  The first \<open>n\<close> standard normal values a generator state yields, and the state after
  \<open>n\<close> draws.
\<close>

fun draws :: "('g \<Rightarrow> real \<times> 'g) \<Rightarrow> 'g \<Rightarrow> nat \<Rightarrow> real list" where
  "draws gauss g 0 = []"
| "draws gauss g (Suc n) = fst (gauss g) # draws gauss (snd (gauss g)) n"

fun after_draws :: "('g \<Rightarrow> real \<times> 'g) \<Rightarrow> 'g \<Rightarrow> nat \<Rightarrow> 'g" where
  "after_draws gauss g 0 = g"
| "after_draws gauss g (Suc n) = after_draws gauss (snd (gauss g)) n"

text \<open>
  The forecast model in the specification's words: the trend at offset \<open>i\<close> is the
  base profile at hour \<open>(current_hour + i) mod 24\<close>; the uncertainty multiplier is the
  linear ramp from 0.5 at offset 0 to 3.0 at offset \<open>horizon\<close>; the standard deviation
  of the noise is volatility times trend times multiplier.
\<close>

definition spec_trend :: "StochasticProfile \<Rightarrow> int \<Rightarrow> nat \<Rightarrow> real" where
  "spec_trend self current_hour i = base_profile self ! nat ((current_hour + int i) mod 24)"

definition spec_multiplier :: "int \<Rightarrow> nat \<Rightarrow> real" where
  "spec_multiplier horizon i = 1/2 + real i * ((3 - 1/2) / real_of_int horizon)"

definition spec_noise_std :: "StochasticProfile \<Rightarrow> int \<Rightarrow> int \<Rightarrow> nat \<Rightarrow> real" where
  "spec_noise_std self current_hour horizon i =
     noise_volatility self * spec_trend self current_hour i * spec_multiplier horizon i"

text \<open>
  The values a call returns in those words: at each offset, trend plus standard deviation
  times the standard normal value drawn for that offset, clamped at 0.
\<close>

definition spec_values ::
  "('g \<Rightarrow> real \<times> 'g) \<Rightarrow> StochasticProfile \<Rightarrow> 'g \<Rightarrow> int \<Rightarrow> int \<Rightarrow> real list" where
  "spec_values gauss self g current_hour horizon =
     map (\<lambda>i. max 0 (spec_trend self current_hour i
                       + spec_noise_std self current_hour horizon i
                         * (draws gauss g (nat (horizon + 1)) ! i)))
       [0..<nat (horizon + 1)]"

text \<open>
  An environment as \<open>reset\<close> leaves it, up to the dynamic state: the constructor's
  constants, the five plants and the city in their configuration, the three fixed profiles.
\<close>

definition fixed_profiles :: "'g StochasticEngine \<Rightarrow> bool" where
  "fixed_profiles eng =
     (demand eng = \<lparr>base_profile = demand_profile, noise_volatility = 0.05\<rparr> \<and>
      solar eng = \<lparr>base_profile = solar_profile, noise_volatility = 0.15\<rparr> \<and>
      wind eng = \<lparr>base_profile = wind_profile, noise_volatility = 0.25\<rparr>)"

definition ready :: "'g SmartGridEnv \<Rightarrow> bool" where
  "ready self =
     (num_controllable_plants self = 3 \<and> forecast_horizon self = 12 \<and> max_steps self = 24 \<and>
      (case episode self of
         None \<Rightarrow> False
       | Some ep \<Rightarrow>
           map plant_config (plants (grid ep)) = map plant_config (plants initial_grid) \<and>
           map consumer_config (consumers (grid ep))
             = map consumer_config (consumers initial_grid) \<and>
           fixed_profiles (engine ep)))"

text \<open>
  Two environment objects that run the same simulation: the same episode state and the
  same constants; they may differ in the render mode.
\<close>

definition same_simulation :: "'g SmartGridEnv \<Rightarrow> 'g SmartGridEnv \<Rightarrow> bool" where
  "same_simulation e1 e2 =
     (episode e1 = episode e2 \<and> num_controllable_plants e1 = num_controllable_plants e2 \<and>
      forecast_horizon e1 = forecast_horizon e2 \<and> max_steps e1 = max_steps e2)"

text \<open>What a caller observes of an episode: every output, and the exception if one ended it.\<close>

definition episode_outputs ::
  "(int \<Rightarrow> py_error + 'g) \<Rightarrow> ('g \<Rightarrow> real \<times> 'g) \<Rightarrow> 'g SmartGridEnv \<Rightarrow> int option \<Rightarrow> 'g
     \<Rightarrow> real list list \<Rightarrow> py_error + ((real list \<times> info) \<times> step_result list \<times> py_error option)" where
  "episode_outputs default_rng gauss self seed entropy actions =
     (case run_episode default_rng gauss self seed entropy actions of
        Inl e \<Rightarrow> Inl e
      | Inr (oi, rs, fin) \<Rightarrow>
          Inr (oi, rs, (case fin of Inl e \<Rightarrow> Some e | Inr _ \<Rightarrow> None)))"

text \<open>
  A concrete generator for the examples: the state counts the draws, the values
  alternate between 1 and -1; every non-negative seed is accepted.
\<close>

definition demo_gauss :: "nat \<Rightarrow> real \<times> nat" where
  "demo_gauss n = (if even n then 1 else - 1, Suc n)"

definition demo_default_rng :: "int \<Rightarrow> py_error + nat" where
  "demo_default_rng s = (if s < 0 then Inl ValueError else Inr (nat s))"

definition demo_profile :: StochasticProfile where
  "demo_profile = \<lparr>base_profile = demand_profile, noise_volatility = 0.05\<rparr>"

definition demo_env :: "nat SmartGridEnv" where
  "demo_env =
     (case reset demo_default_rng demo_gauss (SmartGridEnv_init None) (Some 0) 0 of
        Inl e \<Rightarrow> SmartGridEnv_init None
      | Inr (oi, self) \<Rightarrow> self)"

definition demo_step :: "step_result \<times> nat SmartGridEnv" where
  "demo_step = projr (step demo_gauss demo_env [1, 1/2, 1])"

definition demo_reset_outputs :: "real list \<times> info" where
  "demo_reset_outputs =
     fst (projr (reset demo_default_rng demo_gauss (SmartGridEnv_init None) (Some 0) 0))"

definition demo_run :: "step_result list \<times> (py_error + nat SmartGridEnv)" where
  "demo_run = run_steps demo_gauss demo_env (replicate 24 [1, 1/2, 1])"

definition demo_weather :: "weather \<times> nat StochasticEngine" where
  "demo_weather =
     projr (step_weather_and_demand demo_gauss (engine (the (episode demo_env))) 1 12)"

definition demo_other_env :: "nat SmartGridEnv" where
  "demo_other_env = (snd demo_step)\<lparr>render_mode := Some ''human''\<rparr>"

definition demo_grid :: Grid where
  "demo_grid =
     \<lparr>plants = [gas_plant\<lparr>current_power := 60, is_on := True\<rparr>, nuclear_plant],
      consumers = [Consumer_init ''Main City'' 60]\<rparr>"

section \<open>Properties of the plant model\<close>

lemma step_power_current:
  "current_power (snd (step_power p t)) = current_power p + ramp_delta p (clamp_target p t)"
  by (simp add: step_power_def Let_def)

lemma step_power_costs:
  "fst (step_power p t) =
     (current_power (snd (step_power p t)) * cost_per_mw p,
      current_power (snd (step_power p t)) * co2_per_mw p)"
  by (simp add: step_power_def Let_def)

lemma step_power_static:
  "PowerPlant.name (snd (step_power p t)) = PowerPlant.name p"
  "plant_type (snd (step_power p t)) = plant_type p"
  "p_max (snd (step_power p t)) = p_max p"
  "p_min (snd (step_power p t)) = p_min p"
  "cost_per_mw (snd (step_power p t)) = cost_per_mw p"
  "co2_per_mw (snd (step_power p t)) = co2_per_mw p"
  "ramp_rate (snd (step_power p t)) = ramp_rate p"
  by (simp_all add: step_power_def Let_def)

lemma nuclear_fields:
  "p_max nuclear_plant = 300" "p_min nuclear_plant = 150" "ramp_rate nuclear_plant = 20"
  "current_power nuclear_plant = 0" "cost_per_mw nuclear_plant = 20"
  "co2_per_mw nuclear_plant = 1/100"
  by (simp_all add: nuclear_plant_def PowerPlant_init_def)

lemma gas_fields:
  "p_max gas_plant = 100" "p_min gas_plant = 0" "ramp_rate gas_plant = 100"
  "current_power gas_plant = 0" "cost_per_mw gas_plant = 150" "co2_per_mw gas_plant = 4/5"
  by (simp_all add: gas_plant_def PowerPlant_init_def)










text \<open>
  C2, as the code has it. There is no lower clamp on the target, so the target has to be
  non-negative: for a plant with \<open>p_max \<ge> 0\<close>, \<open>ramp_rate \<ge> 0\<close> and non-negative cost and
  emission rates, at a non-negative output, a call with a target \<open>\<ge> 0\<close> leaves the output
  non-negative and returns a non-negative cost and non-negative emissions.
\<close>

theorem step_power_nonnegative:
  assumes "0 \<le> current_power p" and "0 \<le> t" and "0 \<le> p_max p" and "0 \<le> ramp_rate p"
    and "0 \<le> cost_per_mw p" and "0 \<le> co2_per_mw p"
  shows "0 \<le> current_power (snd (step_power p t)) \<and>
         0 \<le> fst (fst (step_power p t)) \<and> 0 \<le> snd (fst (step_power p t))"
proof -
  have "0 \<le> clamp_target p t"
    using assms(2,3) by (simp add: clamp_target_def min_def)
  then have cp: "0 \<le> current_power (snd (step_power p t))"
    using assms(1,4) by (auto simp add: step_power_current ramp_delta_def Let_def)
  then show ?thesis
    using assms(5,6) by (simp add: step_power_costs)
qed

theorem step_power_nonnegative_witness:
  "0 \<le> current_power (gas_plant\<lparr>current_power := 60, is_on := True\<rparr>) \<and> (0::real) \<le> 30 \<and>
   0 \<le> p_max (gas_plant\<lparr>current_power := 60, is_on := True\<rparr>) \<and>
   0 \<le> ramp_rate (gas_plant\<lparr>current_power := 60, is_on := True\<rparr>) \<and>
   0 \<le> cost_per_mw (gas_plant\<lparr>current_power := 60, is_on := True\<rparr>) \<and>
   0 \<le> co2_per_mw (gas_plant\<lparr>current_power := 60, is_on := True\<rparr>) \<and>
   current_power (snd (step_power (gas_plant\<lparr>current_power := 60, is_on := True\<rparr>) 30)) = 30 \<and>
   fst (step_power (gas_plant\<lparr>current_power := 60, is_on := True\<rparr>) 30) = (4500, 24) \<and>
   0 \<le> current_power (snd (step_power (gas_plant\<lparr>current_power := 60, is_on := True\<rparr>) 30)) \<and>
   0 \<le> fst (fst (step_power (gas_plant\<lparr>current_power := 60, is_on := True\<rparr>) 30)) \<and>
   0 \<le> snd (fst (step_power (gas_plant\<lparr>current_power := 60, is_on := True\<rparr>) 30)) \<and>
   0 \<le> current_power (nuclear_plant\<lparr>current_power := 200, is_on := True\<rparr>) \<and>
   current_power (snd (step_power (nuclear_plant\<lparr>current_power := 200, is_on := True\<rparr>) 0)) = 180 \<and>
   fst (step_power (nuclear_plant\<lparr>current_power := 200, is_on := True\<rparr>) 0) = (3600, 9/5) \<and>
   0 \<le> current_power (snd (step_power (nuclear_plant\<lparr>current_power := 200, is_on := True\<rparr>) 0)) \<and>
   0 \<le> fst (fst (step_power (nuclear_plant\<lparr>current_power := 200, is_on := True\<rparr>) 0)) \<and>
   0 \<le> snd (fst (step_power (nuclear_plant\<lparr>current_power := 200, is_on := True\<rparr>) 0))"
proof -
  let ?g = "gas_plant\<lparr>current_power := 60, is_on := True\<rparr>"
  let ?n = "nuclear_plant\<lparr>current_power := 200, is_on := True\<rparr>"
  have hg: "0 \<le> current_power ?g" "(0::real) \<le> 30" "0 \<le> p_max ?g" "0 \<le> ramp_rate ?g"
    "0 \<le> cost_per_mw ?g" "0 \<le> co2_per_mw ?g"
    by (simp_all add: gas_fields)
  have hn: "0 \<le> current_power ?n" "(0::real) \<le> 0" "0 \<le> p_max ?n" "0 \<le> ramp_rate ?n"
    "0 \<le> cost_per_mw ?n" "0 \<le> co2_per_mw ?n"
    by (simp_all add: nuclear_fields)
  have vg: "current_power (snd (step_power ?g 30)) = 30" "fst (step_power ?g 30) = (4500, 24)"
    by (simp_all add: step_power_costs step_power_current ramp_delta_def clamp_target_def
        gas_fields Let_def)
  have vn: "current_power (snd (step_power ?n 0)) = 180" "fst (step_power ?n 0) = (3600, 9/5)"
    by (simp_all add: step_power_costs step_power_current ramp_delta_def clamp_target_def
        nuclear_fields Let_def)
  show ?thesis
    using step_power_nonnegative [OF hg] step_power_nonnegative [OF hn] hg hn vg vn
    by simp
qed

text \<open>
  C2 as stated fails for a negative target: the gas plant at output 0 with target -50
  ends at output -50, with cost -7500 and emissions -40.
\<close>

theorem step_power_negative_target:
  "0 \<le> current_power gas_plant \<and>
   current_power (snd (step_power gas_plant (- 50))) = - 50 \<and>
   fst (step_power gas_plant (- 50)) = (- 7500, - 40)"
  by (simp add: step_power_costs step_power_current ramp_delta_def clamp_target_def
      gas_fields Let_def)

text \<open>
  C6: for a plant with a non-negative ramp rate, one \<open>step_power\<close> call changes the
  output by at most the ramp rate, from any output and for any target.
\<close>

theorem step_power_ramp_limited:
  "0 \<le> ramp_rate p \<Longrightarrow>
   \<bar>current_power (snd (step_power p t)) - current_power p\<bar> \<le> ramp_rate p"
  by (simp add: step_power_current ramp_delta_def Let_def)

theorem step_power_ramp_limited_witness:
  "0 \<le> ramp_rate nuclear_plant \<and>
   \<bar>current_power (snd (step_power nuclear_plant 300)) - current_power nuclear_plant\<bar>
     \<le> ramp_rate nuclear_plant"
  using step_power_ramp_limited [of nuclear_plant 300] by (simp add: nuclear_fields)

section \<open>Properties of the grid balance\<close>

text \<open>
  C3: \<open>step_balance\<close> returns the sum of the plants' outputs, the sum of the consumers'
  loads, their difference \<open>delta\<close>, the blackout flag \<open>delta < 0\<close>, the unmet demand
  \<open>max 0 (- delta)\<close> and the wasted energy \<open>max 0 delta\<close>; at \<open>delta = 0\<close> there is no
  blackout and both magnitudes are 0, and at most one magnitude is nonzero.
\<close>

theorem step_balance_correct:
  "total_production (step_balance g) = sum_list (map current_power (plants g)) \<and>
   total_demand (step_balance g) = sum_list (map current_load (consumers g)) \<and>
   delta (step_balance g) = total_production (step_balance g) - total_demand (step_balance g) \<and>
   (balance.is_blackout (step_balance g) \<longleftrightarrow> delta (step_balance g) < 0) \<and>
   unmet_demand (step_balance g) = max 0 (- delta (step_balance g)) \<and>
   wasted_energy (step_balance g) = max 0 (delta (step_balance g)) \<and>
   (delta (step_balance g) = 0 \<longrightarrow>
      \<not> balance.is_blackout (step_balance g) \<and> unmet_demand (step_balance g) = 0 \<and>
      wasted_energy (step_balance g) = 0) \<and>
   (unmet_demand (step_balance g) = 0 \<or> wasted_energy (step_balance g) = 0)"
  by (simp add: step_balance_def Let_def max_def)

theorem step_balance_correct_witness:
  "delta (step_balance demo_grid) = 0 \<and>
   total_production (step_balance demo_grid) = 60 \<and>
   total_demand (step_balance demo_grid) = 60 \<and>
   \<not> balance.is_blackout (step_balance demo_grid) \<and>
   unmet_demand (step_balance demo_grid) = 0 \<and>
   wasted_energy (step_balance demo_grid) = 0"
  using step_balance_correct [of demo_grid]
  by (simp add: step_balance_def demo_grid_def nuclear_fields Consumer_init_def Let_def)

section \<open>Properties of the stochastic engine\<close>

lemma draw_normals_eq:
  "draw_normals gauss g loc ss =
     (map2 (\<lambda>s z. loc + s * z) ss (draws gauss g (length ss)), after_draws gauss g (length ss))"
  by (induction ss arbitrary: g) (simp_all add: split_def Let_def)

lemma length_draws [simp]: "length (draws gauss g n) = n"
  by (induction n arbitrary: g) simp_all

lemma after_draws_add: "after_draws gauss (after_draws gauss g m) n = after_draws gauss g (m + n)"
  by (induction m arbitrary: g) simp_all

lemma hours_eq:
  assumes "0 \<le> horizon"
  shows "hours current_hour horizon =
           map (\<lambda>i. nat ((current_hour + int i) mod 24)) [0..<nat (horizon + 1)]"
  unfolding hours_def
  using assms by (intro nth_equalityI) simp_all

lemma hours_lt_24: "h \<in> set (hours current_hour horizon) \<Longrightarrow> h < 24"
  by (auto simp add: hours_def nat_less_iff)

lemma spec_multiplier_ends:
  "spec_multiplier horizon 0 = 1/2" "1 \<le> horizon \<Longrightarrow> spec_multiplier horizon (nat horizon) = 3"
  by (simp_all add: spec_multiplier_def)

lemma linspace_eq:
  assumes "0 \<le> horizon"
  shows "linspace (1/2) 3 (horizon + 1) = Inr (map (spec_multiplier horizon) [0..<nat (horizon + 1)])"
proof (cases "horizon = 0")
  case True
  then show ?thesis by (simp add: linspace_def spec_multiplier_def)
next
  case False
  with assms have pos: "1 \<le> horizon" by simp
  define n where "n = nat (horizon + 1)"
  have n: "n - 1 = nat horizon" "1 < n" "0 < n - 1" using pos by (simp_all add: n_def)
  have r: "real (n - 1) = real_of_int horizon" using pos n(1) by simp
  have m: "map (\<lambda>i. real i * ((3 - 1/2) / real (n - 1)) + 1/2) [0..<n] = map (spec_multiplier horizon) [0..<n]"
    unfolding r by (simp add: spec_multiplier_def add.commute)
  have l: "spec_multiplier horizon (n - 1) = 3"
    unfolding n(1) using pos by (rule spec_multiplier_ends(2))
  have "map (spec_multiplier horizon) [0..<n] ! (n - 1) = 3"
    using n(2) l by simp
  then have upd: "(map (spec_multiplier horizon) [0..<n])[n - 1 := 3] = map (spec_multiplier horizon) [0..<n]"
    by (metis list_update_id)
  have "linspace (1/2) 3 (int n) =
          Inr ((map (\<lambda>i. real i * ((3 - 1/2) / real (n - 1)) + 1/2) [0..<n])[n - 1 := 3])"
    using n(2,3) by (simp add: linspace_def Let_def)
  also have "\<dots> = Inr (map (spec_multiplier horizon) [0..<n])"
    by (simp only: m upd)
  finally have "linspace (1/2) 3 (int n) = Inr (map (spec_multiplier horizon) [0..<n])" .
  moreover have "int n = horizon + 1" using pos by (simp add: n_def)
  ultimately show ?thesis by (simp add: n_def)
qed


lemma spec_multiplier_nonneg: "0 \<le> horizon \<Longrightarrow> 0 \<le> spec_multiplier horizon i"
  by (simp add: spec_multiplier_def)

lemma map2_upt: "map2 f (map a [0..<n]) (map b [0..<n]) = map (\<lambda>i. f (a i) (b i)) [0..<n]"
  by (intro nth_equalityI) simp_all

lemma map2_upt_right: "length zs = n \<Longrightarrow> map2 f (map a [0..<n]) zs = map (\<lambda>i. f (a i) (zs ! i)) [0..<n]"
  by (intro nth_equalityI) simp_all

lemma get_actual_and_forecast_returns:
  assumes len: "24 \<le> length (base_profile self)"
    and nonneg: "\<forall>i<24. 0 \<le> base_profile self ! i"
    and vol: "0 \<le> noise_volatility self"
    and h: "0 \<le> horizon"
  shows "get_actual_and_forecast gauss self g current_hour horizon =
           Inr ((hd (spec_values gauss self g current_hour horizon),
                 tl (spec_values gauss self g current_hour horizon)),
                after_draws gauss g (nat (horizon + 1)))"
proof -
  define n where "n = nat (horizon + 1)"
  have npos: "0 < n" using h by (simp add: n_def)
  have inrange: "\<not> (\<exists>x\<in>set (hours current_hour horizon). length (base_profile self) \<le> x)"
    using hours_lt_24 len by fastforce
  have trend: "map (\<lambda>x. base_profile self ! x) (hours current_hour horizon)
                 = map (spec_trend self current_hour) [0..<n]"
    by (simp add: hours_eq [OF h] spec_trend_def n_def)
  have lin: "linspace (1/2) 3 (horizon + 1) = Inr (map (spec_multiplier horizon) [0..<n])"
    unfolding n_def using h by (rule linspace_eq)
  have std: "map2 (\<lambda>t u. noise_volatility self * t * u)
               (map (spec_trend self current_hour) [0..<n]) (map (spec_multiplier horizon) [0..<n])
             = map (spec_noise_std self current_hour horizon) [0..<n]"
    unfolding map2_upt by (rule map_cong) (simp_all add: spec_noise_std_def)
  have tr_nonneg: "0 \<le> spec_trend self current_hour i" for i
  proof -
    have "nat ((current_hour + int i) mod 24) < 24" by (simp add: nat_less_iff)
    then show ?thesis using nonneg by (simp add: spec_trend_def)
  qed
  have std_nonneg: "\<not> (\<exists>s\<in>set (map (spec_noise_std self current_hour horizon) [0..<n]). s < 0)"
    using vol tr_nonneg spec_multiplier_nonneg [OF h]
    by (auto simp add: spec_noise_std_def not_less)
  have nrm: "rng_normal gauss g 0 (map (spec_noise_std self current_hour horizon) [0..<n])
      = Inr (map (\<lambda>i. spec_noise_std self current_hour horizon i * (draws gauss g n ! i)) [0..<n],
             after_draws gauss g n)"
    unfolding rng_normal_def using std_nonneg
    by (simp add: draw_normals_eq map2_upt_right)
  have vals: "map (max 0) (map2 (+) (map (spec_trend self current_hour) [0..<n])
        (map (\<lambda>i. spec_noise_std self current_hour horizon i * (draws gauss g n ! i)) [0..<n]))
      = spec_values gauss self g current_hour horizon"
    by (simp add: map2_upt spec_values_def n_def)
  have ne: "spec_values gauss self g current_hour horizon \<noteq> []"
    using npos by (simp add: spec_values_def n_def)
  show ?thesis
    unfolding get_actual_and_forecast_def Let_def
    using inrange ne
    by (simp only: if_False trend lin std nrm vals sum.case prod.case n_def [symmetric])
       (simp split: list.split)
qed

lemma linspace_length: "linspace a b num = Inr ys \<Longrightarrow> length ys = nat num"
  by (auto simp add: linspace_def Let_def split: if_splits)

lemma length_hours: "length (hours current_hour horizon) = nat (horizon + 1)"
  by (simp add: hours_def)

lemma get_actual_and_forecast_rng:
  assumes "get_actual_and_forecast gauss self g current_hour horizon = Inr (r, g')"
  shows "g' = after_draws gauss g (nat (horizon + 1))"
  using assms
  unfolding get_actual_and_forecast_def Let_def rng_normal_def
  by (auto simp add: draw_normals_eq length_hours dest!: linspace_length
      split: if_splits sum.splits list.splits)

lemma spec_multiplier_mono:
  "0 \<le> horizon \<Longrightarrow> i \<le> j \<Longrightarrow> spec_multiplier horizon i \<le> spec_multiplier horizon j"
proof -
  assume a: "0 \<le> horizon" "i \<le> j"
  have "0 \<le> (3 - 1/2) / real_of_int horizon" using a(1) by simp
  moreover have "real i \<le> real j" using a(2) by simp
  ultimately have "real i * ((3 - 1/2) / real_of_int horizon)
      \<le> real j * ((3 - 1/2) / real_of_int horizon)"
    by (rule mult_right_mono [rotated])
  then show ?thesis unfolding spec_multiplier_def by simp
qed

lemma spec_trend_nonneg:
  assumes "24 \<le> length (base_profile self)" and "list_all (\<lambda>x. 0 \<le> x) (base_profile self)"
  shows "0 \<le> spec_trend self current_hour i"
proof -
  have "nat ((current_hour + int i) mod 24) < length (base_profile self)"
    using assms(1) by (simp add: nat_less_iff)
  then show ?thesis
    using assms(2) by (simp add: spec_trend_def list_all_length)
qed

lemma spec_values_nth:
  "i < nat (horizon + 1) \<Longrightarrow>
   spec_values gauss self g current_hour horizon ! i =
     max 0 (spec_trend self current_hour i
            + spec_noise_std self current_hour horizon i * (draws gauss g (nat (horizon + 1)) ! i))"
  by (simp add: spec_values_def)

lemma length_spec_values: "length (spec_values gauss self g current_hour horizon) = nat (horizon + 1)"
  by (simp add: spec_values_def)

lemma spec_values_nonneg: "list_all (\<lambda>x. 0 \<le> x) (spec_values gauss self g current_hour horizon)"
  by (simp add: spec_values_def list_all_iff)

text \<open>
  C4, as the code has it. For a profile of 24 non-negative entries, a non-negative
  volatility and a horizon of at least 1, \<open>get_actual_and_forecast\<close> returns; the value at
  offset \<open>i\<close> (0 for \<open>actual_value\<close>, 1 to \<open>horizon\<close> for the forecast) is the trend at
  hour \<open>(current_hour + i) mod 24\<close> plus the noise, clamped at 0, where the noise is the
  \<open>i\<close>-th standard normal draw scaled by volatility times trend times the multiplier of
  the linear ramp, 0.5 at offset 0 and 3.0 at offset \<open>horizon\<close>; the generator advances
  by \<open>horizon + 1\<close> draws; \<open>actual_value\<close> is drawn with the multiplier 0.5; and between
  two offsets with the same trend the standard deviation does not decrease.
\<close>

theorem get_actual_and_forecast_correct:
  assumes len: "length (base_profile self) = 24"
    and nonneg: "list_all (\<lambda>x. 0 \<le> x) (base_profile self)"
    and vol: "0 \<le> noise_volatility self"
    and h: "1 \<le> horizon"
  shows "(\<exists>actual forecast.
            get_actual_and_forecast gauss self g current_hour horizon
              = Inr ((actual, forecast), after_draws gauss g (nat (horizon + 1))) \<and>
            length forecast = nat horizon \<and>
            (\<forall>i\<le>nat horizon.
               (actual # forecast) ! i =
                 max 0 (spec_trend self current_hour i
                        + spec_noise_std self current_hour horizon i
                          * (draws gauss g (nat (horizon + 1)) ! i))) \<and>
            actual = max 0 (spec_trend self current_hour 0
                            + noise_volatility self * spec_trend self current_hour 0 * (1/2)
                              * fst (gauss g)) \<and>
            0 \<le> actual \<and> list_all (\<lambda>x. 0 \<le> x) forecast) \<and>
         spec_multiplier horizon 0 = 1/2 \<and>
         spec_multiplier horizon (nat horizon) = 3 \<and>
         (\<forall>i j. i \<le> j \<and> j \<le> nat horizon \<and>
                spec_trend self current_hour i = spec_trend self current_hour j \<longrightarrow>
                spec_noise_std self current_hour horizon i
                  \<le> spec_noise_std self current_hour horizon j)"
proof -
  let ?vs = "spec_values gauss self g current_hour horizon"
  have h0: "0 \<le> horizon" using h by simp
  have n: "nat (horizon + 1) = Suc (nat horizon)" using h by simp
  have tn: "\<forall>i<24. 0 \<le> base_profile self ! i"
    using nonneg len by (simp add: list_all_length)
  have ret: "get_actual_and_forecast gauss self g current_hour horizon
               = Inr ((hd ?vs, tl ?vs), after_draws gauss g (nat (horizon + 1)))"
    using len tn vol h0 by (intro get_actual_and_forecast_returns) simp_all
  have ne: "?vs \<noteq> []" using length_spec_values [of gauss self g current_hour horizon] n by auto
  then have cons: "hd ?vs # tl ?vs = ?vs" by simp
  have l: "length (tl ?vs) = nat horizon"
    by (simp add: length_spec_values n)
  have nth: "\<forall>i\<le>nat horizon. (hd ?vs # tl ?vs) ! i =
                 max 0 (spec_trend self current_hour i
                        + spec_noise_std self current_hour horizon i
                          * (draws gauss g (nat (horizon + 1)) ! i))"
    unfolding cons using n by (simp add: spec_values_nth)
  have "hd ?vs = ?vs ! 0" using ne by (simp add: hd_conv_nth)
  also have "\<dots> = max 0 (spec_trend self current_hour 0
                            + spec_noise_std self current_hour horizon 0
                              * (draws gauss g (nat (horizon + 1)) ! 0))"
    using n by (simp add: spec_values_nth)
  also have "\<dots> = max 0 (spec_trend self current_hour 0
                            + noise_volatility self * spec_trend self current_hour 0 * (1/2)
                              * fst (gauss g))"
    by (simp add: n spec_noise_std_def spec_multiplier_def)
  finally have act: "hd ?vs = max 0 (spec_trend self current_hour 0
                            + noise_volatility self * spec_trend self current_hour 0 * (1/2)
                              * fst (gauss g))" .
  have all: "list_all (\<lambda>x. 0 \<le> x) (hd ?vs # tl ?vs)"
    unfolding cons by (rule spec_values_nonneg)
  then have pos: "0 \<le> hd ?vs" "list_all (\<lambda>x. 0 \<le> x) (tl ?vs)" by simp_all
  have mono: "\<forall>i j. i \<le> j \<and> j \<le> nat horizon \<and>
                spec_trend self current_hour i = spec_trend self current_hour j \<longrightarrow>
                spec_noise_std self current_hour horizon i
                  \<le> spec_noise_std self current_hour horizon j"
  proof (intro allI impI)
    fix i j
    assume a: "i \<le> j \<and> j \<le> nat horizon \<and>
                spec_trend self current_hour i = spec_trend self current_hour j"
    have "0 \<le> noise_volatility self * spec_trend self current_hour j"
      using vol spec_trend_nonneg [of self current_hour j] len nonneg by simp
    then show "spec_noise_std self current_hour horizon i
                  \<le> spec_noise_std self current_hour horizon j"
      using a spec_multiplier_mono [OF h0, of i j]
      by (simp add: spec_noise_std_def mult_left_mono)
  qed
  show ?thesis
    using ret l nth act pos mono spec_multiplier_ends(1) [of horizon]
      spec_multiplier_ends(2) [OF h]
    by blast
qed


theorem get_actual_and_forecast_correct_witness:
  "length (base_profile demo_profile) = 24 \<and>
   list_all (\<lambda>x. 0 \<le> x) (base_profile demo_profile) \<and>
   0 \<le> noise_volatility demo_profile \<and> (1::int) \<le> 2 \<and>
   get_actual_and_forecast demo_gauss demo_profile 0 23 2
     = Inr ((533/800, [219/400, 253/400]), after_draws demo_gauss 0 (nat (2 + 1))) \<and>
   spec_multiplier 2 0 = 1/2 \<and> spec_multiplier 2 (nat 2) = 3"
proof -
  have h1: "length (base_profile demo_profile) = 24"
    by (simp add: demo_profile_def demand_profile_def)
  have h2: "list_all (\<lambda>x. 0 \<le> x) (base_profile demo_profile)"
    by (simp add: demo_profile_def demand_profile_def)
  have h3: "0 \<le> noise_volatility demo_profile"
    by (simp add: demo_profile_def)
  have h4: "(1::int) \<le> 2" by simp
  have ev: "get_actual_and_forecast demo_gauss demo_profile 0 23 2
              = Inr ((533/800, [219/400, 253/400]), 3)"
    by code_simp
  show ?thesis
    using get_actual_and_forecast_correct
      [OF h1 h2 h3 h4, where gauss = demo_gauss and g = 0 and current_hour = 23]
      h1 h2 h3 ev
    by auto
qed

text \<open>
  C4 as stated fails at \<open>horizon = 0\<close>: the ramp has the single point 0.5, so the value at
  offset \<open>horizon\<close> is drawn with the multiplier 0.5, not 3.0.
\<close>

theorem get_actual_and_forecast_horizon_zero:
  "linspace (1/2) 3 (0 + 1) = Inr [1/2] \<and>
   get_actual_and_forecast demo_gauss demo_profile 0 23 0 = Inr ((533/800, []), 1) \<and>
   (533/800 :: real) \<noteq> max 0 (65/100 + 5/100 * (65/100) * 3 * fst (demo_gauss 0))"
  by (simp add: get_actual_and_forecast_def hours_def linspace_def rng_normal_def
      demo_gauss_def demo_profile_def demand_profile_def upto.simps Let_def)

section \<open>Properties of the environment\<close>

lemma step_power_config: "plant_config (snd (step_power p t)) = plant_config p"
  by (simp add: plant_config_def step_power_static)

lemma map_config_update:
  "i < length ps \<Longrightarrow>
   map plant_config (ps[i := snd (step_power (ps ! i) t)]) = map plant_config ps"
  by (simp add: map_update step_power_config list_update_same_conv)

lemma apply_actions_frame:
  "apply_actions action is (g, c, e) = Inr (g', c', e') \<Longrightarrow>
   map plant_config (plants g') = map plant_config (plants g) \<and> consumers g' = consumers g \<and>
   (\<forall>j. j \<notin> set is \<longrightarrow> plants g' ! j = plants g ! j)"
proof (induction "is" arbitrary: g c e)
  case Nil
  then show ?case by simp
next
  case (Cons i rest)
  from Cons.prems have i: "i < length (plants g)" "i < length action"
    by (auto split: if_splits)
  let ?p = "snd (step_power (plants g ! i) (action ! i * p_max (plants g ! i)))"
  let ?g = "g\<lparr>plants := (plants g)[i := ?p]\<rparr>"
  from Cons.prems i obtain c1 e1 where
    rec: "apply_actions action rest (?g, c1, e1) = Inr (g', c', e')"
    by (auto simp add: Let_def split_def)
  from Cons.IH [OF rec] i show ?case
    by (auto simp add: map_config_update)
qed

lemma apply_actions_length:
  "apply_actions action is (g, c, e) = Inr (g', c', e') \<Longrightarrow>
   length (plants g') = length (plants g)"
  using apply_actions_frame [of action "is" g c e g' c' e']
  by (metis length_map)

lemma apply_actions_costs:
  "distinct is \<Longrightarrow> apply_actions action is (g, c, e) = Inr (g', c', e') \<Longrightarrow>
   c' = c + (\<Sum>i\<leftarrow>is. current_power (plants g' ! i) * cost_per_mw (plants g' ! i)) \<and>
   e' = e + (\<Sum>i\<leftarrow>is. current_power (plants g' ! i) * co2_per_mw (plants g' ! i))"
proof (induction "is" arbitrary: g c e)
  case Nil
  then show ?case by simp
next
  case (Cons i rest)
  from Cons.prems have i: "i < length (plants g)" "i < length action"
    by (auto split: if_splits)
  let ?p = "snd (step_power (plants g ! i) (action ! i * p_max (plants g ! i)))"
  let ?g = "g\<lparr>plants := (plants g)[i := ?p]\<rparr>"
  from Cons.prems i have
    rec: "apply_actions action rest
            (?g, c + current_power ?p * cost_per_mw ?p, e + current_power ?p * co2_per_mw ?p)
          = Inr (g', c', e')"
    by (simp add: Let_def split_def step_power_costs step_power_static)
  from Cons.prems have d: "distinct rest" "i \<notin> set rest" by simp_all
  from apply_actions_frame [OF rec] d(2) i have same: "plants g' ! i = ?p"
    by simp
  from Cons.IH [OF d(1) rec] same show ?case
    by simp
qed

lemma apply_actions_returns:
  "\<forall>i\<in>set is. i < length (plants g) \<and> i < length action \<Longrightarrow>
   \<exists>r. apply_actions action is (g, c, e) = Inr r"
proof (induction "is" arbitrary: g c e)
  case Nil
  then show ?case by simp
next
  case (Cons i rest)
  then show ?case by (simp add: Let_def split_def)
qed

lemma apply_actions_short:
  "\<exists>i\<in>set is. length action \<le> i \<Longrightarrow> apply_actions action is (g, c, e) = Inl IndexError"
proof (induction "is" arbitrary: g c e)
  case Nil
  then show ?case by simp
next
  case (Cons i rest)
  show ?case
  proof (cases "i < length (plants g) \<and> i < length action")
    case True
    with Cons.prems have "\<exists>i\<in>set rest. length action \<le> i" by auto
    from Cons.IH [OF this] True show ?thesis
      by (simp add: Let_def split_def)
  next
    case False
    then show ?thesis by auto
  qed
qed

lemma map_update_same: "i < length ps \<Longrightarrow> (map f ps)[i := f (ps ! i)] = map f ps"
  by (simp add: list_update_same_conv)

lemma update_stochastic_elements_frame:
  assumes "update_stochastic_elements ep = Inr ep'"
  shows "map plant_config (plants (grid ep')) = map plant_config (plants (grid ep))"
    and "map consumer_config (consumers (grid ep')) = map consumer_config (consumers (grid ep))"
    and "take 3 (plants (grid ep')) = take 3 (plants (grid ep))"
    and "current_step ep' = current_step ep" and "engine ep' = engine ep"
    and "solar_capacity ep' = solar_capacity ep" and "wind_capacity ep' = wind_capacity ep"
    and "city_base_load ep' = city_base_load ep" and "current_weather ep' = current_weather ep"
    and "5 \<le> length (plants (grid ep))" and "consumers (grid ep) \<noteq> []"
proof -
  from assms obtain c cs where cons: "consumers (grid ep) = c # cs"
    unfolding update_stochastic_elements_def Let_def by (auto split: list.splits)
  from assms cons have len: "5 \<le> length (plants (grid ep))"
    unfolding update_stochastic_elements_def Let_def by (auto split: if_splits)
  from assms cons len have ep': "ep' = ep\<lparr>grid :=
      \<lparr>plants = (plants (grid ep))
         [3 := snd (step_power (plants (grid ep) ! 3)
                     (actual_solar (current_weather ep) * solar_capacity ep)),
          4 := snd (step_power (plants (grid ep) ! 4)
                     (actual_wind (current_weather ep) * wind_capacity ep))],
       consumers = update_load c (actual_demand (current_weather ep) * city_base_load ep) # cs\<rparr>\<rparr>"
    unfolding update_stochastic_elements_def Let_def by auto
  show "map plant_config (plants (grid ep')) = map plant_config (plants (grid ep))"
    using len by (simp add: ep' map_update step_power_config map_update_same)
  show "map consumer_config (consumers (grid ep')) = map consumer_config (consumers (grid ep))"
    by (simp add: ep' cons consumer_config_def update_load_def)
  show "take 3 (plants (grid ep')) = take 3 (plants (grid ep))"
    by (simp add: ep')
  show "current_step ep' = current_step ep" "engine ep' = engine ep"
    "solar_capacity ep' = solar_capacity ep" "wind_capacity ep' = wind_capacity ep"
    "city_base_load ep' = city_base_load ep" "current_weather ep' = current_weather ep"
    by (simp_all add: ep')
  show "5 \<le> length (plants (grid ep))" by (rule len)
  show "consumers (grid ep) \<noteq> []" by (simp add: cons)
qed

lemma update_stochastic_elements_returns:
  assumes "5 \<le> length (plants (grid ep))" and "consumers (grid ep) \<noteq> []"
  shows "\<exists>ep'. update_stochastic_elements ep = Inr ep'"
  using assms
  unfolding update_stochastic_elements_def Let_def
  by (auto split: list.splits)

lemma step_weather_and_demand_frame:
  assumes "step_weather_and_demand gauss eng current_hour horizon = Inr (w, eng')"
  shows "demand eng' = demand eng" and "solar eng' = solar eng" and "wind eng' = wind eng"
  using assms unfolding step_weather_and_demand_def
  by (auto split: sum.splits prod.splits)


lemma step_Inr:
  assumes "step gauss self action = Inr (r, self')"
  shows "\<exists>ep0 g c e w eng ep info_dict obs.
     episode self = Some ep0 \<and>
     apply_actions action [0..<num_controllable_plants self] (grid ep0, 0, 0) = Inr (g, c, e) \<and>
     step_weather_and_demand gauss (engine ep0) (current_step ep0 + 1) (forecast_horizon self)
       = Inr (w, eng) \<and>
     update_stochastic_elements
       (ep0\<lparr>current_step := current_step ep0 + 1, grid := g, engine := eng,
            current_weather := w\<rparr>) = Inr ep \<and>
     get_info ep = Inr info_dict \<and> get_obs self ep = Inr obs \<and>
     self' = self\<lparr>episode := Some ep\<rparr> \<and>
     r = \<lparr>observation = obs,
          reward = - ((0.1 * c) + (0.1 * e) + (0.5 * wasted_energy (step_balance (grid ep)))
                      + (100 * unmet_demand (step_balance (grid ep)))),
          terminated = False, truncated = (max_steps self \<le> current_step ep),
          info = info_dict\<lparr>is_blackout := Some (balance.is_blackout (step_balance (grid ep)))\<rparr>\<rparr>"
  using assms unfolding step_def Let_def
  by (auto split: option.splits sum.splits prod.splits)

lemma initial_grid_eq:
  "initial_grid =
     \<lparr>plants = [PowerPlant_init ''Gas Plant'' ''gas'' 100 0 150 0.8 100,
                PowerPlant_init ''Coal Plant'' ''coal'' 150 0 50 1.2 50,
                PowerPlant_init ''Nuclear Plant'' ''nuclear'' 300 150 20 0.01 20,
                PowerPlant_init ''Solar Farm'' ''solar'' 150 0 0 0 999,
                PowerPlant_init ''Wind Farm'' ''wind'' 100 0 0 0 999],
      consumers = [Consumer_init ''Main City'' 400]\<rparr>"
  by (simp add: initial_grid_def add_plant_def add_consumer_def Grid_init_def)

lemma config_p_max: "map plant_config ps = map plant_config qs \<Longrightarrow> map p_max ps = map p_max qs"
proof -
  assume "map plant_config ps = map plant_config qs"
  then have "map ((\<lambda>c. fst (snd (snd c))) \<circ> plant_config) ps
           = map ((\<lambda>c. fst (snd (snd c))) \<circ> plant_config) qs"
    by (simp only: map_map [symmetric])
  then show ?thesis by (simp add: comp_def plant_config_def)
qed

lemma ready_plants:
  assumes "map plant_config ps = map plant_config (plants initial_grid)"
  shows "length ps = 5" and "\<not> (\<exists>p\<in>set ps. p_max p = 0)"
proof -
  have "length (map plant_config ps) = length (map plant_config (plants initial_grid))"
    using assms by (rule arg_cong)
  then show "length ps = 5"
    by (simp add: initial_grid_eq)
  have "map p_max ps = [100, 150, 300, 150, 100]"
    using config_p_max [OF assms] by (simp add: initial_grid_eq PowerPlant_init_def)
  then have "0 \<notin> set (map p_max ps)" by simp
  then have "0 \<notin> p_max ` set ps" by simp
  then show "\<not> (\<exists>p\<in>set ps. p_max p = 0)" by force
qed


lemma nonneg_nth: "list_all (\<lambda>x. (0::real) \<le> x) xs \<Longrightarrow> length xs = 24 \<Longrightarrow> \<forall>i<24. 0 \<le> xs ! i"
  by (simp add: list_all_length)

lemma demand_profile_facts:
  "length demand_profile = 24" "\<forall>i<24. 0 \<le> demand_profile ! i"
proof -
  show l: "length demand_profile = 24" by (simp add: demand_profile_def)
  have "list_all (\<lambda>x. 0 \<le> x) demand_profile" by (simp add: demand_profile_def)
  then show "\<forall>i<24. 0 \<le> demand_profile ! i" using l by (rule nonneg_nth)
qed

lemma solar_profile_facts:
  "length solar_profile = 24" "\<forall>i<24. 0 \<le> solar_profile ! i"
proof -
  show l: "length solar_profile = 24" by (simp add: solar_profile_def)
  have "list_all (\<lambda>x. 0 \<le> x) solar_profile" by (simp add: solar_profile_def)
  then show "\<forall>i<24. 0 \<le> solar_profile ! i" using l by (rule nonneg_nth)
qed

lemma wind_profile_facts:
  "length wind_profile = 24" "\<forall>i<24. 0 \<le> wind_profile ! i"
  by (simp_all add: wind_profile_def)

lemma step_weather_and_demand_returns:
  assumes "fixed_profiles eng" and "0 \<le> horizon"
  shows "\<exists>w eng'. step_weather_and_demand gauss eng current_hour horizon = Inr (w, eng')"
proof -
  have d: "\<exists>r. get_actual_and_forecast gauss (demand eng) g current_hour horizon
                  = Inr (r, after_draws gauss g (nat (horizon + 1)))" for g
    using assms get_actual_and_forecast_returns [of "demand eng" horizon gauss g current_hour]
    by (simp add: fixed_profiles_def demand_profile_facts)
  have s: "\<exists>r. get_actual_and_forecast gauss (solar eng) g current_hour horizon
                  = Inr (r, after_draws gauss g (nat (horizon + 1)))" for g
    using assms get_actual_and_forecast_returns [of "solar eng" horizon gauss g current_hour]
    by (simp add: fixed_profiles_def solar_profile_facts)
  have w: "\<exists>r. get_actual_and_forecast gauss (wind eng) g current_hour horizon
                  = Inr (r, after_draws gauss g (nat (horizon + 1)))" for g
    using assms get_actual_and_forecast_returns [of "wind eng" horizon gauss g current_hour]
    by (simp add: fixed_profiles_def wind_profile_facts)
  from d [of "rng eng"] obtain rd where
    1: "get_actual_and_forecast gauss (demand eng) (rng eng) current_hour horizon
          = Inr (rd, after_draws gauss (rng eng) (nat (horizon + 1)))" ..
  from s [of "after_draws gauss (rng eng) (nat (horizon + 1))"] obtain rs where
    2: "get_actual_and_forecast gauss (solar eng) (after_draws gauss (rng eng) (nat (horizon + 1)))
          current_hour horizon
          = Inr (rs, after_draws gauss (after_draws gauss (rng eng) (nat (horizon + 1)))
                       (nat (horizon + 1)))" ..
  from w [of "after_draws gauss (after_draws gauss (rng eng) (nat (horizon + 1)))
                       (nat (horizon + 1))"] obtain rw where
    3: "get_actual_and_forecast gauss (wind eng)
          (after_draws gauss (after_draws gauss (rng eng) (nat (horizon + 1))) (nat (horizon + 1)))
          current_hour horizon
          = Inr (rw, after_draws gauss (after_draws gauss (after_draws gauss (rng eng)
                  (nat (horizon + 1))) (nat (horizon + 1))) (nat (horizon + 1)))" ..
  show ?thesis
    unfolding step_weather_and_demand_def
    by (simp add: 1 2 3 split_def)
qed

lemma step_weather_and_demand_fixed:
  assumes "step_weather_and_demand gauss eng current_hour horizon = Inr (w, eng')"
    and "fixed_profiles eng"
  shows "fixed_profiles eng'"
  using step_weather_and_demand_frame [OF assms(1)] assms(2)
  by (simp add: fixed_profiles_def)

lemma get_info_returns:
  "5 \<le> length (plants (grid ep)) \<Longrightarrow> consumers (grid ep) \<noteq> [] \<Longrightarrow> \<exists>i. get_info ep = Inr i"
  by (simp add: get_info_def)

lemma get_obs_returns:
  "\<not> (\<exists>p\<in>set (plants (grid ep)). p_max p = 0) \<Longrightarrow> max_steps self \<noteq> 0 \<Longrightarrow>
   \<exists>obs. get_obs self ep = Inr obs"
  by (simp add: get_obs_def)


lemma ready_consumers:
  assumes "map consumer_config cs = map consumer_config (consumers initial_grid)"
  shows "cs \<noteq> []"
proof -
  have "length (map consumer_config cs) = length (map consumer_config (consumers initial_grid))"
    using assms by (rule arg_cong)
  then show ?thesis by (auto simp add: initial_grid_eq)
qed

lemma step_returns:
  assumes rdy: "ready self" and act: "3 \<le> length action"
  shows "\<exists>r self'. step gauss self action = Inr (r, self') \<and> ready self'"
proof -
  from rdy obtain ep0 where ep0: "episode self = Some ep0"
    by (auto simp add: ready_def split: option.splits)
  from rdy ep0 have cst: "num_controllable_plants self = 3" "forecast_horizon self = 12"
      "max_steps self = 24"
    and pc: "map plant_config (plants (grid ep0)) = map plant_config (plants initial_grid)"
    and cc: "map consumer_config (consumers (grid ep0))
               = map consumer_config (consumers initial_grid)"
    and fp: "fixed_profiles (engine ep0)"
    by (simp_all add: ready_def)
  have len0: "length (plants (grid ep0)) = 5" using pc by (rule ready_plants(1))
  have "\<forall>i\<in>set [0..<3]. i < length (plants (grid ep0)) \<and> i < length action"
    using len0 act by simp
  from apply_actions_returns [OF this, of 0 0] obtain g c e where
    aa: "apply_actions action [0..<3] (grid ep0, 0, 0) = Inr (g, c, e)"
    by (metis prod_cases3)
  from apply_actions_frame [OF aa] pc cc have
    pcg: "map plant_config (plants g) = map plant_config (plants initial_grid)" and
    ccg: "map consumer_config (consumers g) = map consumer_config (consumers initial_grid)"
    by simp_all
  from step_weather_and_demand_returns [OF fp, of 12 gauss "current_step ep0 + 1"]
  obtain w eng where
    sw: "step_weather_and_demand gauss (engine ep0) (current_step ep0 + 1) 12 = Inr (w, eng)"
    by auto
  have fpe: "fixed_profiles eng" using sw fp by (rule step_weather_and_demand_fixed)
  let ?ep1 = "ep0\<lparr>current_step := current_step ep0 + 1, grid := g, engine := eng,
                   current_weather := w\<rparr>"
  have "5 \<le> length (plants (grid ?ep1))" "consumers (grid ?ep1) \<noteq> []"
    using ready_plants(1) [OF pcg] ready_consumers [OF ccg] by simp_all
  from update_stochastic_elements_returns [OF this] obtain ep where
    up: "update_stochastic_elements ?ep1 = Inr ep" ..
  note fr = update_stochastic_elements_frame [OF up]
  have pce: "map plant_config (plants (grid ep)) = map plant_config (plants initial_grid)"
    using fr(1) pcg by simp
  have cce: "map consumer_config (consumers (grid ep))
               = map consumer_config (consumers initial_grid)"
    using fr(2) ccg by simp
  have fpp: "fixed_profiles (engine ep)" using fr(5) fpe by simp
  from get_info_returns [of ep] ready_plants(1) [OF pce] ready_consumers [OF cce]
  obtain i where gi: "get_info ep = Inr i" by auto
  from get_obs_returns [of ep self] ready_plants(2) [OF pce] cst(3)
  obtain obs where go: "get_obs self ep = Inr obs" by auto
  have "step gauss self action =
          Inr (\<lparr>observation = obs,
                reward = - ((0.1 * c) + (0.1 * e) + (0.5 * wasted_energy (step_balance (grid ep)))
                            + (100 * unmet_demand (step_balance (grid ep)))),
                terminated = False, truncated = (max_steps self \<le> current_step ep),
                info = i\<lparr>is_blackout := Some (balance.is_blackout (step_balance (grid ep)))\<rparr>\<rparr>,
               self\<lparr>episode := Some ep\<rparr>)"
    unfolding step_def Let_def
    by (simp add: ep0 cst aa sw up gi go)
  moreover have "ready (self\<lparr>episode := Some ep\<rparr>)"
    using cst pce cce fpp by (simp add: ready_def)
  ultimately show ?thesis by blast
qed

lemma step_short_action:
  assumes rdy: "ready self" and act: "length action < 3"
  shows "step gauss self action = Inl IndexError"
proof -
  from rdy obtain ep0 where ep0: "episode self = Some ep0"
    by (auto simp add: ready_def split: option.splits)
  from rdy have n: "num_controllable_plants self = 3" by (simp add: ready_def)
  have "\<exists>i\<in>set [0..<3]. length action \<le> i" using act by auto
  then have "apply_actions action [0..<3] (grid ep0, 0, 0) = Inl IndexError"
    by (rule apply_actions_short)
  then show ?thesis
    unfolding step_def Let_def by (simp add: ep0 n)
qed

lemma step_before_reset: "episode self = None \<Longrightarrow> step gauss self action = Inl AttributeError"
  by (simp add: step_def)


lemma StochasticEngine_init_fixed:
  "StochasticEngine_init default_rng seed entropy = Inr eng \<Longrightarrow> fixed_profiles eng"
  by (auto simp add: StochasticEngine_init_def fixed_profiles_def split: sum.splits)

lemma reset_Inr:
  assumes "reset default_rng gauss self seed entropy = Inr (oi, self')"
  shows "\<exists>ep. self' = self\<lparr>episode := Some ep\<rparr> \<and> current_step ep = 0 \<and>
           map plant_config (plants (grid ep)) = map plant_config (plants initial_grid) \<and>
           map consumer_config (consumers (grid ep))
             = map consumer_config (consumers initial_grid) \<and>
           fixed_profiles (engine ep)"
proof -
  from assms obtain eng w eng' ep where
    ei: "StochasticEngine_init default_rng seed entropy = Inr eng" and
    sw: "step_weather_and_demand gauss eng 0 (forecast_horizon self) = Inr (w, eng')" and
    up: "update_stochastic_elements
           \<lparr>current_step = 0, engine = eng', grid = initial_grid, solar_capacity = 150,
            wind_capacity = 100, city_base_load = 400, current_weather = w\<rparr> = Inr ep" and
    s': "self' = self\<lparr>episode := Some ep\<rparr>"
    unfolding reset_def by (auto split: sum.splits prod.splits)
  note fr = update_stochastic_elements_frame [OF up]
  have "fixed_profiles eng'"
    using sw StochasticEngine_init_fixed [OF ei] by (rule step_weather_and_demand_fixed)
  then have "self' = self\<lparr>episode := Some ep\<rparr> \<and> current_step ep = 0 \<and>
           map plant_config (plants (grid ep)) = map plant_config (plants initial_grid) \<and>
           map consumer_config (consumers (grid ep))
             = map consumer_config (consumers initial_grid) \<and>
           fixed_profiles (engine ep)"
    using s' fr(1,2,4,5) by simp
  then show ?thesis ..
qed

lemma reset_ready:
  assumes "reset default_rng gauss (SmartGridEnv_init rm) seed entropy = Inr (oi, self')"
  shows "ready self'"
  using reset_Inr [OF assms]
  by (auto simp add: ready_def SmartGridEnv_init_def)

lemma reset_returns:
  assumes "StochasticEngine_init default_rng seed entropy = Inr eng"
    and "0 \<le> forecast_horizon self" and "max_steps self \<noteq> 0"
  shows "\<exists>oi self'. reset default_rng gauss self seed entropy = Inr (oi, self')"
proof -
  from step_weather_and_demand_returns [OF StochasticEngine_init_fixed [OF assms(1)] assms(2)]
  obtain w eng' where
    sw: "step_weather_and_demand gauss eng 0 (forecast_horizon self) = Inr (w, eng')"
    by blast
  let ?ep = "\<lparr>current_step = 0, engine = eng', grid = initial_grid, solar_capacity = 150,
            wind_capacity = 100, city_base_load = 400, current_weather = w\<rparr>"
  have "5 \<le> length (plants (grid ?ep))" "consumers (grid ?ep) \<noteq> []"
    by (simp_all add: initial_grid_eq)
  from update_stochastic_elements_returns [OF this] obtain ep where
    up: "update_stochastic_elements ?ep = Inr ep" ..
  note fr = update_stochastic_elements_frame [OF up]
  have pce: "map plant_config (plants (grid ep)) = map plant_config (plants initial_grid)"
    using fr(1) by simp
  have cce: "map consumer_config (consumers (grid ep))
               = map consumer_config (consumers initial_grid)"
    using fr(2) by simp
  from get_info_returns [of ep] ready_plants(1) [OF pce] ready_consumers [OF cce]
  obtain i where gi: "get_info ep = Inr i" by auto
  from get_obs_returns [of ep self] ready_plants(2) [OF pce] assms(3)
  obtain obs where go: "get_obs self ep = Inr obs" by auto
  show ?thesis
    unfolding reset_def by (simp add: assms(1) sw up gi go)
qed

lemma run_steps_ready:
  assumes "ready self" and "run_steps gauss self actions = (rs, fin)"
  shows "length rs \<le> length actions \<and>
         (\<forall>self'. fin = Inr self' \<longrightarrow> ready self' \<and> length rs = length actions) \<and>
         (list_all (\<lambda>a. 3 \<le> length a) actions \<longrightarrow> (\<exists>self'. fin = Inr self'))"
  using assms
proof (induction actions arbitrary: self rs fin)
  case Nil
  then show ?case by auto
next
  case (Cons a as)
  show ?case
  proof (cases "step gauss self a")
    case (Inl e)
    with Cons.prems(2) have "rs = []" "fin = Inl e" by simp_all
    moreover have "\<not> 3 \<le> length a"
      using step_returns [OF Cons.prems(1), of a gauss] Inl by auto
    ultimately show ?thesis by simp
  next
    case (Inr p)
    obtain r self1 where p: "p = (r, self1)" by (cases p)
    obtain rs1 fin1 where rec: "run_steps gauss self1 as = (rs1, fin1)"
      by (cases "run_steps gauss self1 as")
    from Cons.prems(2) Inr p rec have out: "rs = r # rs1" "fin = fin1" by simp_all
    have "3 \<le> length a"
      using step_short_action [OF Cons.prems(1), of a gauss] Inr by (cases "3 \<le> length a") auto
    from step_returns [OF Cons.prems(1) this, of gauss] Inr p have "ready self1" by auto
    from Cons.IH [OF this rec] out show ?thesis by auto
  qed
qed

lemma demo_env_reset:
  "\<exists>oi. reset demo_default_rng demo_gauss (SmartGridEnv_init None) (Some 0) 0 = Inr (oi, demo_env)"
proof -
  have "StochasticEngine_init demo_default_rng (Some 0) (0::nat) =
          Inr \<lparr>rng = 0,
               demand = \<lparr>base_profile = demand_profile, noise_volatility = 0.05\<rparr>,
               solar = \<lparr>base_profile = solar_profile, noise_volatility = 0.15\<rparr>,
               wind = \<lparr>base_profile = wind_profile, noise_volatility = 0.25\<rparr>\<rparr>"
    by (simp add: StochasticEngine_init_def demo_default_rng_def)
  from reset_returns [OF this, of "SmartGridEnv_init None" demo_gauss]
  obtain oi s where r: "reset demo_default_rng demo_gauss (SmartGridEnv_init None) (Some 0) 0
                          = Inr (oi, s)"
    by (auto simp add: SmartGridEnv_init_def)
  then have "demo_env = s" by (simp add: demo_env_def)
  with r show ?thesis by blast
qed

lemma demo_env_ready: "ready demo_env"
proof -
  from demo_env_reset obtain oi where
    "reset demo_default_rng demo_gauss (SmartGridEnv_init None) (Some 0) 0 = Inr (oi, demo_env)" ..
  then show ?thesis by (rule reset_ready)
qed

lemma demo_step_eq: "step demo_gauss demo_env [1, 1/2, 1] = Inr (fst demo_step, snd demo_step)"
proof -
  from step_returns [OF demo_env_ready, of "[1, 1/2, 1]" demo_gauss]
  obtain r s where "step demo_gauss demo_env [1, 1/2, 1] = Inr (r, s)" by auto
  then show ?thesis by (simp add: demo_step_def)
qed

lemma demo_env_episode: "episode demo_env = Some (the (episode demo_env))"
  using demo_env_ready by (auto simp add: ready_def split: option.splits)

text \<open>
  C10: a \<open>step\<close> call that returns leaves the static configuration as it was: the
  plants (their number, order, names, types, capacities, minima, cost and emission
  rates, ramp rates), the consumers (number, order, names, base loads), the three
  profiles, the capacities and the base load of the episode, and the constructor's
  constants.
\<close>

theorem step_preserves_configuration:
  assumes "step gauss self action = Inr (r, self')" and "episode self = Some ep"
  shows "\<exists>ep'. episode self' = Some ep' \<and>
           map plant_config (plants (grid ep')) = map plant_config (plants (grid ep)) \<and>
           map consumer_config (consumers (grid ep')) = map consumer_config (consumers (grid ep)) \<and>
           demand (engine ep') = demand (engine ep) \<and>
           solar (engine ep') = solar (engine ep) \<and>
           wind (engine ep') = wind (engine ep) \<and>
           solar_capacity ep' = solar_capacity ep \<and> wind_capacity ep' = wind_capacity ep \<and>
           city_base_load ep' = city_base_load ep \<and>
           render_mode self' = render_mode self \<and>
           num_controllable_plants self' = num_controllable_plants self \<and>
           forecast_horizon self' = forecast_horizon self \<and>
           max_steps self' = max_steps self"
proof -
  from step_Inr [OF assms(1)] assms(2) obtain g c e w eng ep' where
    aa: "apply_actions action [0..<num_controllable_plants self] (grid ep, 0, 0) = Inr (g, c, e)" and
    sw: "step_weather_and_demand gauss (engine ep) (current_step ep + 1) (forecast_horizon self)
           = Inr (w, eng)" and
    up: "update_stochastic_elements
           (ep\<lparr>current_step := current_step ep + 1, grid := g, engine := eng,
               current_weather := w\<rparr>) = Inr ep'" and
    s': "self' = self\<lparr>episode := Some ep'\<rparr>"
    by auto
  note fa = apply_actions_frame [OF aa]
  note fw = step_weather_and_demand_frame [OF sw]
  note fu = update_stochastic_elements_frame [OF up]
  have "episode self' = Some ep' \<and>
           map plant_config (plants (grid ep')) = map plant_config (plants (grid ep)) \<and>
           map consumer_config (consumers (grid ep')) = map consumer_config (consumers (grid ep)) \<and>
           demand (engine ep') = demand (engine ep) \<and>
           solar (engine ep') = solar (engine ep) \<and>
           wind (engine ep') = wind (engine ep) \<and>
           solar_capacity ep' = solar_capacity ep \<and> wind_capacity ep' = wind_capacity ep \<and>
           city_base_load ep' = city_base_load ep \<and>
           render_mode self' = render_mode self \<and>
           num_controllable_plants self' = num_controllable_plants self \<and>
           forecast_horizon self' = forecast_horizon self \<and>
           max_steps self' = max_steps self"
    using fa fw fu(1,2,5,6,7,8) s' by simp
  then show ?thesis ..
qed

theorem step_preserves_configuration_witness:
  "step demo_gauss demo_env [1, 1/2, 1] = Inr (fst demo_step, snd demo_step) \<and>
   episode demo_env = Some (the (episode demo_env)) \<and>
   map plant_config (plants (grid (the (episode (snd demo_step)))))
     = map plant_config (plants (grid (the (episode demo_env)))) \<and>
   map plant_config (plants (grid (the (episode (snd demo_step)))))
     = map plant_config (plants initial_grid) \<and>
   max_steps (snd demo_step) = 24 \<and>
   map current_power (plants (grid (the (episode demo_env)))) = [0, 0, 0, 0, 225/4] \<and>
   map current_power (plants (grid (the (episode (snd demo_step))))) = [100, 50, 20, 0, 175/4]"
proof -
  have v: "map current_power (plants (grid (the (episode demo_env)))) = [0, 0, 0, 0, 225/4]"
    "map current_power (plants (grid (the (episode (snd demo_step))))) = [100, 50, 20, 0, 175/4]"
    by code_simp+
  show ?thesis
    using step_preserves_configuration [OF demo_step_eq demo_env_episode] demo_env_ready
      demo_step_eq demo_env_episode v
    by (auto simp add: ready_def split: option.splits)
qed

lemma demo_reset_eq:
  "reset demo_default_rng demo_gauss (SmartGridEnv_init None) (Some 0) 0
     = Inr (demo_reset_outputs, demo_env)"
  using demo_env_reset by (auto simp add: demo_reset_outputs_def)

lemma map_nth_take: "n \<le> length ps \<Longrightarrow> map (\<lambda>i. f (ps ! i)) [0..<n] = map f (take n ps)"
  by (intro nth_equalityI) simp_all

text \<open>
  C8: for every \<open>step\<close> call that returns (with the three controllable plants of the
  constructor), the reward is minus the sum of 0.1 times the cost of the three
  controllable plants at their output after the call, 0.1 times their emissions, 0.5
  times the wasted energy and 100 times the unmet demand of the balance of the grid as
  the call leaves it, that is, after all plants and the consumer have been advanced.
\<close>

theorem step_reward_formula:
  assumes "step gauss self action = Inr (r, self')" and "num_controllable_plants self = 3"
  shows "\<exists>ep'. episode self' = Some ep' \<and>
           reward r =
             - (0.1 * (\<Sum>p\<leftarrow>take 3 (plants (grid ep')). current_power p * cost_per_mw p)
                + 0.1 * (\<Sum>p\<leftarrow>take 3 (plants (grid ep')). current_power p * co2_per_mw p)
                + 0.5 * wasted_energy (step_balance (grid ep'))
                + 100 * unmet_demand (step_balance (grid ep')))"
proof -
  from step_Inr [OF assms(1)] assms(2) obtain ep0 g c e w eng ep' where
    aa: "apply_actions action [0..<3] (grid ep0, 0, 0) = Inr (g, c, e)" and
    up: "update_stochastic_elements
           (ep0\<lparr>current_step := current_step ep0 + 1, grid := g, engine := eng,
                current_weather := w\<rparr>) = Inr ep'" and
    s': "self' = self\<lparr>episode := Some ep'\<rparr>" and
    rw: "reward r = - ((0.1 * c) + (0.1 * e) + (0.5 * wasted_energy (step_balance (grid ep')))
                      + (100 * unmet_demand (step_balance (grid ep'))))"
    by auto
  note fu = update_stochastic_elements_frame [OF up]
  have len: "3 \<le> length (plants g)" using fu(10) by simp
  have tk: "take 3 (plants (grid ep')) = take 3 (plants g)" using fu(3) by simp
  have "distinct [0..<3::nat]" by simp
  from apply_actions_costs [OF this aa] have
    "c = (\<Sum>i\<leftarrow>[0..<3]. current_power (plants g ! i) * cost_per_mw (plants g ! i))"
    "e = (\<Sum>i\<leftarrow>[0..<3]. current_power (plants g ! i) * co2_per_mw (plants g ! i))"
    by simp_all
  then have
    "c = (\<Sum>p\<leftarrow>take 3 (plants (grid ep')). current_power p * cost_per_mw p)"
    "e = (\<Sum>p\<leftarrow>take 3 (plants (grid ep')). current_power p * co2_per_mw p)"
    unfolding tk
    using map_nth_take [OF len, of "\<lambda>p. current_power p * cost_per_mw p"]
      map_nth_take [OF len, of "\<lambda>p. current_power p * co2_per_mw p"]
    by simp_all
  with rw s' have "episode self' = Some ep' \<and>
           reward r =
             - (0.1 * (\<Sum>p\<leftarrow>take 3 (plants (grid ep')). current_power p * cost_per_mw p)
                + 0.1 * (\<Sum>p\<leftarrow>take 3 (plants (grid ep')). current_power p * co2_per_mw p)
                + 0.5 * wasted_energy (step_balance (grid ep'))
                + 100 * unmet_demand (step_balance (grid ep')))"
    by simp
  then show ?thesis ..
qed

theorem step_reward_formula_witness:
  "step demo_gauss demo_env [1, 1/2, 1] = Inr (fst demo_step, snd demo_step) \<and>
   num_controllable_plants demo_env = 3 \<and>
   reward (fst demo_step) = - (93951 / 50) \<and>
   map (\<lambda>p. current_power p * cost_per_mw p)
     (take 3 (plants (grid (the (episode (snd demo_step)))))) = [15000, 2500, 400] \<and>
   map (\<lambda>p. current_power p * co2_per_mw p)
     (take 3 (plants (grid (the (episode (snd demo_step)))))) = [80, 60, 1/5] \<and>
   wasted_energy (step_balance (grid (the (episode (snd demo_step))))) = 0 \<and>
   unmet_demand (step_balance (grid (the (episode (snd demo_step))))) = 3/4"
proof -
  have n: "num_controllable_plants demo_env = 3"
    using demo_env_ready by (simp add: ready_def)
  have v: "map (\<lambda>p. current_power p * cost_per_mw p)
     (take 3 (plants (grid (the (episode (snd demo_step)))))) = [15000, 2500, 400]"
    "map (\<lambda>p. current_power p * co2_per_mw p)
     (take 3 (plants (grid (the (episode (snd demo_step)))))) = [80, 60, 1/5]"
    "wasted_energy (step_balance (grid (the (episode (snd demo_step))))) = 0"
    "unmet_demand (step_balance (grid (the (episode (snd demo_step))))) = 3/4"
    by code_simp+
  from step_reward_formula [OF demo_step_eq n] obtain ep' where
    ep': "episode (snd demo_step) = Some ep'" and
    rw: "reward (fst demo_step) =
             - (0.1 * sum_list (map (\<lambda>p. current_power p * cost_per_mw p)
                                  (take 3 (plants (grid ep'))))
                + 0.1 * sum_list (map (\<lambda>p. current_power p * co2_per_mw p)
                                    (take 3 (plants (grid ep'))))
                + 0.5 * wasted_energy (step_balance (grid ep'))
                + 100 * unmet_demand (step_balance (grid ep')))"
    by blast
  have the: "the (episode (snd demo_step)) = ep'" using ep' by simp
  have "reward (fst demo_step) =
          - (0.1 * sum_list [15000, 2500, 400] + 0.1 * sum_list [80, 60, 1/5]
             + 0.5 * 0 + 100 * (3/4))"
    unfolding rw using v by (simp only: the)
  then have "reward (fst demo_step) = - (93951 / 50)"
    by simp
  then show ?thesis
    using demo_step_eq n v by simp
qed

lemma step_counter:
  assumes "step gauss self a = Inr (r, self')" and "episode self = Some ep"
  shows "\<exists>ep'. episode self' = Some ep' \<and> current_step ep' = current_step ep + 1 \<and>
           \<not> terminated r \<and> (truncated r \<longleftrightarrow> max_steps self \<le> current_step ep + 1)"
proof -
  from step_Inr [OF assms(1)] assms(2) obtain g w eng ep' obs c e i where
    up: "update_stochastic_elements
           (ep\<lparr>current_step := current_step ep + 1, grid := g, engine := eng,
               current_weather := w\<rparr>) = Inr ep'" and
    s': "self' = self\<lparr>episode := Some ep'\<rparr>" and
    r: "r = \<lparr>observation = obs,
          reward = - ((0.1 * c) + (0.1 * e) + (0.5 * wasted_energy (step_balance (grid ep')))
                      + (100 * unmet_demand (step_balance (grid ep')))),
          terminated = False, truncated = (max_steps self \<le> current_step ep'),
          info = i\<lparr>is_blackout := Some (balance.is_blackout (step_balance (grid ep')))\<rparr>\<rparr>"
    by auto
  note fu = update_stochastic_elements_frame [OF up]
  have "episode self' = Some ep' \<and> current_step ep' = current_step ep + 1 \<and>
           \<not> terminated r \<and> (truncated r \<longleftrightarrow> max_steps self \<le> current_step ep + 1)"
    using s' r fu(4) by simp
  then show ?thesis ..
qed

lemma run_steps_counter:
  assumes "ready self" and "episode self = Some ep"
    and "run_steps gauss self actions = (rs, fin)"
  shows "(\<forall>k<length rs. \<not> terminated (rs ! k) \<and>
            (truncated (rs ! k) \<longleftrightarrow> 24 \<le> current_step ep + int k + 1)) \<and>
         (\<forall>self'. fin = Inr self' \<longrightarrow>
            (\<exists>ep'. episode self' = Some ep' \<and>
                   current_step ep' = current_step ep + int (length actions)))"
  using assms
proof (induction actions arbitrary: self ep rs fin)
  case Nil
  then show ?case by auto
next
  case (Cons a as)
  show ?case
  proof (cases "step gauss self a")
    case (Inl e)
    with Cons.prems(3) show ?thesis by auto
  next
    case (Inr p)
    obtain r self1 where p: "p = (r, self1)" by (cases p)
    obtain rs1 fin1 where rec: "run_steps gauss self1 as = (rs1, fin1)"
      by (cases "run_steps gauss self1 as")
    from Cons.prems(3) Inr p rec have out: "rs = r # rs1" "fin = fin1" by simp_all
    have "3 \<le> length a"
      using step_short_action [OF Cons.prems(1), of a gauss] Inr by (cases "3 \<le> length a") auto
    from step_returns [OF Cons.prems(1) this, of gauss] Inr p have rdy: "ready self1" by auto
    from step_counter [of gauss self a r self1 ep] Inr p Cons.prems(2) obtain ep1 where
      ep1: "episode self1 = Some ep1" "current_step ep1 = current_step ep + 1"
        "\<not> terminated r" "truncated r \<longleftrightarrow> max_steps self \<le> current_step ep + 1"
      by auto
    have ms: "max_steps self = 24" using Cons.prems(1) by (simp add: ready_def)
    note ih = Cons.IH [OF rdy ep1(1) rec]
    have a: "\<forall>k<length rs. \<not> terminated (rs ! k) \<and>
            (truncated (rs ! k) \<longleftrightarrow> 24 \<le> current_step ep + int k + 1)"
    proof (intro allI impI)
      fix k assume k: "k < length rs"
      show "\<not> terminated (rs ! k) \<and>
            (truncated (rs ! k) \<longleftrightarrow> 24 \<le> current_step ep + int k + 1)"
      proof (cases k)
        case 0
        then show ?thesis using out ep1(3,4) ms by simp
      next
        case (Suc j)
        then have "j < length rs1" using k out by simp
        with ih have "\<not> terminated (rs1 ! j) \<and>
            (truncated (rs1 ! j) \<longleftrightarrow> 24 \<le> current_step ep1 + int j + 1)" by blast
        then show ?thesis using Suc out ep1(2) by simp
      qed
    qed
    have b: "\<forall>self'. fin = Inr self' \<longrightarrow>
            (\<exists>ep'. episode self' = Some ep' \<and>
                   current_step ep' = current_step ep + int (length (a # as)))"
      using ih out ep1(2) by auto
    from a b show ?thesis by blast
  qed
qed

text \<open>
  C7: after a \<open>reset\<close> of a freshly constructed environment the turn counter is 0;
  every \<open>step\<close> call that returns increments it by exactly 1 and returns
  \<open>terminated = False\<close>; in a run of \<open>step\<close> calls from the reset, call number
  \<open>k + 1\<close> returns \<open>truncated = True\<close> exactly when \<open>k + 1 \<ge> 24\<close>, so calls 1 to 23
  return False and call 24 and every later call return True; and every call whose
  action has at least three entries returns.
\<close>

theorem episode_turn_counter:
  assumes "reset default_rng gauss (SmartGridEnv_init rm) seed entropy = Inr (oi, self)"
    and "run_steps gauss self actions = (rs, fin)"
  shows "(\<exists>ep. episode self = Some ep \<and> current_step ep = 0) \<and>
         (\<forall>k<length rs. \<not> terminated (rs ! k) \<and> (truncated (rs ! k) \<longleftrightarrow> 24 \<le> k + 1)) \<and>
         (\<forall>self'. fin = Inr self' \<longrightarrow>
            length rs = length actions \<and>
            (\<exists>ep. episode self' = Some ep \<and> current_step ep = int (length actions))) \<and>
         (list_all (\<lambda>a. 3 \<le> length a) actions \<longrightarrow> (\<exists>self'. fin = Inr self')) \<and>
         (\<forall>s a r s' ep. step gauss s a = Inr (r, s') \<and> episode s = Some ep \<longrightarrow>
            (\<exists>ep'. episode s' = Some ep' \<and> current_step ep' = current_step ep + 1) \<and>
            \<not> terminated r)"
proof -
  from reset_Inr [OF assms(1)] obtain ep where
    ep: "episode self = Some ep" "current_step ep = 0" by auto
  have rdy: "ready self" using assms(1) by (rule reset_ready)
  note c = run_steps_counter [OF rdy ep(1) assms(2)]
  note d = run_steps_ready [OF rdy assms(2)]
  have 1: "\<exists>ep. episode self = Some ep \<and> current_step ep = 0" using ep by blast
  have 2: "\<forall>k<length rs. \<not> terminated (rs ! k) \<and> (truncated (rs ! k) \<longleftrightarrow> 24 \<le> k + 1)"
  proof (intro allI impI)
    fix k assume "k < length rs"
    with c have "\<not> terminated (rs ! k) \<and>
            (truncated (rs ! k) \<longleftrightarrow> 24 \<le> current_step ep + int k + 1)" by blast
    then show "\<not> terminated (rs ! k) \<and> (truncated (rs ! k) \<longleftrightarrow> 24 \<le> k + 1)"
      using ep(2) by auto
  qed
  have 3: "\<forall>self'. fin = Inr self' \<longrightarrow>
            length rs = length actions \<and>
            (\<exists>ep. episode self' = Some ep \<and> current_step ep = int (length actions))"
    using c d ep(2) by auto
  have 4: "list_all (\<lambda>a. 3 \<le> length a) actions \<longrightarrow> (\<exists>self'. fin = Inr self')"
    using d by blast
  have 5: "\<forall>s a r s' ep. step gauss s a = Inr (r, s') \<and> episode s = Some ep \<longrightarrow>
            (\<exists>ep'. episode s' = Some ep' \<and> current_step ep' = current_step ep + 1) \<and>
            \<not> terminated r"
    using step_counter [of gauss] by blast
  from 1 2 3 4 5 show ?thesis by blast
qed


theorem episode_turn_counter_witness:
  "reset demo_default_rng demo_gauss (SmartGridEnv_init None) (Some 0) 0
     = Inr (demo_reset_outputs, demo_env) \<and>
   run_steps demo_gauss demo_env (replicate 24 [1, 1/2, 1]) = (fst demo_run, snd demo_run) \<and>
   list_all (\<lambda>a. 3 \<le> length a) (replicate 24 [1, 1/2, 1::real]) \<and>
   current_step (the (episode demo_env)) = 0 \<and>
   length (fst demo_run) = 24 \<and>
   \<not> truncated (fst demo_run ! 0) \<and> \<not> truncated (fst demo_run ! 22) \<and>
   truncated (fst demo_run ! 23) \<and> \<not> terminated (fst demo_run ! 23) \<and>
   current_step (the (episode (projr (snd demo_run)))) = 24"
proof -
  have run: "run_steps demo_gauss demo_env (replicate 24 [1, 1/2, 1]) = (fst demo_run, snd demo_run)"
    by (simp add: demo_run_def)
  have acts: "list_all (\<lambda>a. 3 \<le> length a) (replicate 24 [1, 1/2, 1::real])"
    by (simp add: list_all_iff)
  note t = episode_turn_counter [OF demo_reset_eq run]
  from t acts obtain self' where fin: "snd demo_run = Inr self'" by blast
  with t have len: "length (fst demo_run) = 24" by simp
  from t fin obtain ep where ep: "episode self' = Some ep" "current_step ep = 24" by auto
  from t have "current_step (the (episode demo_env)) = 0" by auto
  moreover from t len have "\<not> truncated (fst demo_run ! 0)" "\<not> truncated (fst demo_run ! 22)"
    "truncated (fst demo_run ! 23)" "\<not> terminated (fst demo_run ! 23)"
    by simp_all
  ultimately show ?thesis
    using demo_reset_eq run acts len fin ep by simp
qed

lemma apply_actions_take:
  "\<forall>i\<in>set is. i < n \<Longrightarrow>
   apply_actions (take n action) is acc = apply_actions action is acc"
proof (induction "is" arbitrary: acc)
  case Nil
  then show ?case by simp
next
  case (Cons i rest)
  obtain g c e where acc: "acc = (g, c, e)" by (cases acc)
  from Cons.prems have i: "i < n" and rest: "\<forall>i\<in>set rest. i < n" by simp_all
  show ?case
    unfolding acc using i Cons.IH [OF rest]
    by (auto simp add: Let_def split_def min_def)
qed

lemma step_take:
  "step gauss self (take (num_controllable_plants self) action) = step gauss self action"
proof -
  have "\<forall>i\<in>set [0..<num_controllable_plants self]. i < num_controllable_plants self"
    by simp
  from apply_actions_take [OF this]
  have eq: "apply_actions (take (num_controllable_plants self) action)
              [0..<num_controllable_plants self] acc
            = apply_actions action [0..<num_controllable_plants self] acc" for acc
    by blast
  show ?thesis
    by (cases "episode self") (simp_all add: step_def eq)
qed

text \<open>
  C9, as the code has it. A \<open>step\<close> call on an environment that was never reset raises
  AttributeError. On an environment reached from a \<open>reset\<close> by \<open>step\<close> calls, an action
  with fewer than three entries raises IndexError; an action with three or more entries
  never raises, whatever its values, and its entries beyond the third are ignored.
\<close>

theorem step_structural_errors:
  assumes "reset default_rng gauss (SmartGridEnv_init rm) seed entropy = Inr (oi, self0)"
    and "run_steps gauss self0 actions = (rs, Inr self)"
  shows "step gauss (SmartGridEnv_init rm') action = Inl AttributeError \<and>
         (length action < 3 \<longrightarrow> step gauss self action = Inl IndexError) \<and>
         (3 \<le> length action \<longrightarrow>
            (\<exists>r self'. step gauss self action = Inr (r, self')) \<and>
            step gauss self action = step gauss self (take 3 action))"
proof -
  have "ready self0" using assms(1) by (rule reset_ready)
  from run_steps_ready [OF this assms(2)] have rdy: "ready self" by simp
  then have n: "num_controllable_plants self = 3" by (simp add: ready_def)
  have "step gauss (SmartGridEnv_init rm') action = Inl AttributeError"
    by (rule step_before_reset) (simp add: SmartGridEnv_init_def)
  moreover have "length action < 3 \<longrightarrow> step gauss self action = Inl IndexError"
    using step_short_action [OF rdy] by blast
  moreover have "3 \<le> length action \<longrightarrow> (\<exists>r self'. step gauss self action = Inr (r, self'))"
    using step_returns [OF rdy] by blast
  moreover have "step gauss self action = step gauss self (take 3 action)"
    using step_take [of gauss self action] n by simp
  ultimately show ?thesis by blast
qed

theorem step_structural_errors_witness:
  "reset demo_default_rng demo_gauss (SmartGridEnv_init None) (Some 0) 0
     = Inr (demo_reset_outputs, demo_env) \<and>
   run_steps demo_gauss demo_env [[1, 1/2, 1]] = ([fst demo_step], Inr (snd demo_step)) \<and>
   step demo_gauss (SmartGridEnv_init None) [1, 1, 1] = Inl AttributeError \<and>
   length [1, 1 :: real] < 3 \<and>
   step demo_gauss (snd demo_step) [1, 1] = Inl IndexError \<and>
   3 \<le> length [2, 3/10, 1/1000 :: real] \<and>
   \<not> isl (step demo_gauss (snd demo_step) [2, 3/10, 1/1000])"
proof -
  have run: "run_steps demo_gauss demo_env [[1, 1/2, 1]] = ([fst demo_step], Inr (snd demo_step))"
    by (simp add: demo_step_eq split_def)
  from step_structural_errors [OF demo_reset_eq run, of None "[1, 1, 1]"]
  have a: "step demo_gauss (SmartGridEnv_init None) [1, 1, 1] = Inl AttributeError" by simp
  from step_structural_errors [OF demo_reset_eq run, of None "[1, 1]"]
  have b: "step demo_gauss (snd demo_step) [1, 1] = Inl IndexError" by simp
  from step_structural_errors [OF demo_reset_eq run, of None "[2, 3/10, 1/1000]"]
  have c: "\<not> isl (step demo_gauss (snd demo_step) [2, 3/10, 1/1000])" by auto
  show ?thesis using demo_reset_eq run a b c by simp
qed

text \<open>
  C9 as stated fails for an action vector longer than 3: after a reset, \<open>step\<close> with
  four entries returns, with the result of the call on the first three entries.
\<close>

theorem step_accepts_long_action:
  "reset demo_default_rng demo_gauss (SmartGridEnv_init None) (Some 0) 0
     = Inr (demo_reset_outputs, demo_env) \<and>
   length [1, 1/2, 1, 7 :: real] = 4 \<and>
   \<not> isl (step demo_gauss demo_env [1, 1/2, 1, 7]) \<and>
   step demo_gauss demo_env [1, 1/2, 1, 7] = step demo_gauss demo_env [1, 1/2, 1]"
proof -
  have n: "num_controllable_plants demo_env = 3"
    using demo_env_ready by (simp add: ready_def)
  from step_returns [OF demo_env_ready, of "[1, 1/2, 1, 7]" demo_gauss]
  have a: "\<not> isl (step demo_gauss demo_env [1, 1/2, 1, 7])" by auto
  from step_take [of demo_gauss demo_env "[1, 1/2, 1, 7]"] n
  have b: "step demo_gauss demo_env [1, 1/2, 1, 7] = step demo_gauss demo_env [1, 1/2, 1]"
    by simp
  show ?thesis using demo_reset_eq a b by simp
qed

lemma get_obs_cong: "max_steps e1 = max_steps e2 \<Longrightarrow> get_obs e1 ep = get_obs e2 ep"
  by (simp add: get_obs_def)

lemma reset_view:
  assumes "forecast_horizon e1 = forecast_horizon e2" and "max_steps e1 = max_steps e2"
  shows "map_sum id (map_prod id episode) (reset default_rng gauss e1 (Some seed) entropy1)
       = map_sum id (map_prod id episode) (reset default_rng gauss e2 (Some seed) entropy2)"
  unfolding reset_def StochasticEngine_init_def
  using assms get_obs_cong [OF assms(2)]
  by (auto split: sum.splits)

lemma reset_constants:
  assumes "reset default_rng gauss self seed entropy = Inr (oi, self')"
  shows "num_controllable_plants self' = num_controllable_plants self"
    "forecast_horizon self' = forecast_horizon self" "max_steps self' = max_steps self"
  using reset_Inr [OF assms] by auto

lemma step_view:
  assumes "same_simulation e1 e2"
  shows "map_sum id (map_prod id episode) (step gauss e1 action)
       = map_sum id (map_prod id episode) (step gauss e2 action)"
proof (cases "episode e1")
  case None
  then show ?thesis using assms by (simp add: step_def same_simulation_def)
next
  case (Some ep0)
  then have "episode e2 = Some ep0" using assms by (simp add: same_simulation_def)
  then show ?thesis
    unfolding step_def Let_def
    using assms Some get_obs_cong [of e1 e2]
    by (auto simp add: same_simulation_def split: sum.splits)
qed

lemma step_constants:
  assumes "step gauss self action = Inr (r, self')"
  shows "num_controllable_plants self' = num_controllable_plants self"
    "forecast_horizon self' = forecast_horizon self" "max_steps self' = max_steps self"
  using step_Inr [OF assms] by auto


lemma run_steps_view:
  assumes "same_simulation e1 e2"
  shows "fst (run_steps gauss e1 actions) = fst (run_steps gauss e2 actions) \<and>
         map_sum id episode (snd (run_steps gauss e1 actions))
           = map_sum id episode (snd (run_steps gauss e2 actions))"
  using assms
proof (induction actions arbitrary: e1 e2)
  case Nil
  then show ?case by (simp add: same_simulation_def)
next
  case (Cons a as)
  note v = step_view [OF Cons.prems, of gauss a]
  show ?case
  proof (cases "step gauss e1 a")
    case (Inl err)
    with v have "step gauss e2 a = Inl err" by (cases "step gauss e2 a") auto
    with Inl show ?thesis by simp
  next
    case (Inr p)
    obtain r s1 where p: "p = (r, s1)" by (cases p)
    from v Inr p obtain s2 where
      2: "step gauss e2 a = Inr (r, s2)" and ep: "episode s1 = episode s2"
      by (cases "step gauss e2 a") auto
    have "same_simulation s1 s2"
      using ep Cons.prems step_constants [of gauss e1 a r s1] step_constants [OF 2] Inr p
      by (simp add: same_simulation_def)
    from Cons.IH [OF this] Inr p 2 show ?thesis
      by (simp add: split_def Let_def)
  qed
qed

lemma episode_outputs_view:
  assumes "num_controllable_plants e1 = num_controllable_plants e2"
    and "forecast_horizon e1 = forecast_horizon e2" and "max_steps e1 = max_steps e2"
  shows "episode_outputs default_rng gauss e1 (Some seed) entropy1 actions
       = episode_outputs default_rng gauss e2 (Some seed) entropy2 actions"
proof -
  note v = reset_view [OF assms(2,3), of default_rng gauss seed entropy1 entropy2]
  show ?thesis
  proof (cases "reset default_rng gauss e1 (Some seed) entropy1")
    case (Inl err)
    with v have "reset default_rng gauss e2 (Some seed) entropy2 = Inl err"
      by (cases "reset default_rng gauss e2 (Some seed) entropy2") auto
    with Inl show ?thesis by (simp add: episode_outputs_def run_episode_def)
  next
    case (Inr p)
    obtain oi s1 where p: "p = (oi, s1)" by (cases p)
    from v Inr p obtain s2 where
      2: "reset default_rng gauss e2 (Some seed) entropy2 = Inr (oi, s2)"
      and ep: "episode s1 = episode s2"
      by (cases "reset default_rng gauss e2 (Some seed) entropy2") auto
    have "same_simulation s1 s2"
      using ep assms reset_constants [of default_rng gauss e1 "Some seed" entropy1 oi s1]
        reset_constants [OF 2] Inr p
      by (simp add: same_simulation_def)
    from run_steps_view [OF this, of gauss actions] have
      a: "fst (run_steps gauss s1 actions) = fst (run_steps gauss s2 actions)" and
      b: "map_sum id episode (snd (run_steps gauss s1 actions))
           = map_sum id episode (snd (run_steps gauss s2 actions))"
      by simp_all
    from b have "(case snd (run_steps gauss s1 actions) of Inl e \<Rightarrow> Some e | Inr _ \<Rightarrow> None)
               = (case snd (run_steps gauss s2 actions) of Inl e \<Rightarrow> Some e | Inr _ \<Rightarrow> None)"
      by (cases "snd (run_steps gauss s1 actions)"; cases "snd (run_steps gauss s2 actions)") auto
    with a Inr p 2 show ?thesis
      by (simp add: episode_outputs_def run_episode_def split_def)
  qed
qed

lemma step_weather_and_demand_order:
  assumes "step_weather_and_demand gauss eng hour horizon = Inr (w, eng')"
  shows "get_actual_and_forecast gauss (demand eng) (rng eng) hour horizon
           = Inr ((actual_demand w, forecast_demand w),
                  after_draws gauss (rng eng) (nat (horizon + 1))) \<and>
         get_actual_and_forecast gauss (solar eng)
             (after_draws gauss (rng eng) (nat (horizon + 1))) hour horizon
           = Inr ((actual_solar w, forecast_solar w),
                  after_draws gauss (rng eng) (2 * nat (horizon + 1))) \<and>
         get_actual_and_forecast gauss (wind eng)
             (after_draws gauss (rng eng) (2 * nat (horizon + 1))) hour horizon
           = Inr ((actual_wind w, forecast_wind w),
                  after_draws gauss (rng eng) (3 * nat (horizon + 1))) \<and>
         rng eng' = after_draws gauss (rng eng) (3 * nat (horizon + 1))"
proof -
  let ?n = "nat (horizon + 1)"
  from assms obtain ad fd g1 as fs g2 aw fw g3 where
    d: "get_actual_and_forecast gauss (demand eng) (rng eng) hour horizon = Inr ((ad, fd), g1)" and
    s: "get_actual_and_forecast gauss (solar eng) g1 hour horizon = Inr ((as, fs), g2)" and
    w: "get_actual_and_forecast gauss (wind eng) g2 hour horizon = Inr ((aw, fw), g3)" and
    out: "w = \<lparr>actual_demand = ad, actual_solar = as, actual_wind = aw,
               forecast_demand = fd, forecast_solar = fs, forecast_wind = fw\<rparr>"
         "eng' = eng\<lparr>rng := g3\<rparr>"
    unfolding step_weather_and_demand_def
    by (auto split: sum.splits prod.splits)
  have g1: "g1 = after_draws gauss (rng eng) ?n"
    using d by (rule get_actual_and_forecast_rng)
  have "g2 = after_draws gauss g1 ?n"
    using s by (rule get_actual_and_forecast_rng)
  then have g2: "g2 = after_draws gauss (rng eng) (2 * ?n)"
    by (simp add: g1 after_draws_add mult_2)
  have "g3 = after_draws gauss g2 ?n"
    using w by (rule get_actual_and_forecast_rng)
  moreover have "2 * ?n + ?n = 3 * ?n" by simp
  ultimately have g3: "g3 = after_draws gauss (rng eng) (3 * ?n)"
    by (simp only: g2 after_draws_add)
  show ?thesis
    using d s w by (simp add: out g1 [symmetric] g2 [symmetric] g3 [symmetric])
qed

text \<open>
  C5: for an integer seed, what an episode returns (the observation and info of
  \<open>reset\<close>, the observation, reward, flags and info of every \<open>step\<close>, and the
  exception if one ends the run) is the same for any two environment objects with the
  constructor's constants, whatever their earlier episodes, their render mode and the
  operating system's entropy. Within a turn the generator serves the demand profile
  first, then the solar profile, then the wind profile: each takes the next
  \<open>horizon + 1\<close> draws.
\<close>

theorem episode_deterministic:
  assumes "num_controllable_plants e1 = num_controllable_plants e2"
    and "forecast_horizon e1 = forecast_horizon e2" and "max_steps e1 = max_steps e2"
  shows "episode_outputs default_rng gauss e1 (Some seed) entropy1 actions
           = episode_outputs default_rng gauss e2 (Some seed) entropy2 actions \<and>
         (\<forall>eng hour horizon w eng'.
            step_weather_and_demand gauss eng hour horizon = Inr (w, eng') \<longrightarrow>
            get_actual_and_forecast gauss (demand eng) (rng eng) hour horizon
              = Inr ((actual_demand w, forecast_demand w),
                     after_draws gauss (rng eng) (nat (horizon + 1))) \<and>
            get_actual_and_forecast gauss (solar eng)
                (after_draws gauss (rng eng) (nat (horizon + 1))) hour horizon
              = Inr ((actual_solar w, forecast_solar w),
                     after_draws gauss (rng eng) (2 * nat (horizon + 1))) \<and>
            get_actual_and_forecast gauss (wind eng)
                (after_draws gauss (rng eng) (2 * nat (horizon + 1))) hour horizon
              = Inr ((actual_wind w, forecast_wind w),
                     after_draws gauss (rng eng) (3 * nat (horizon + 1))) \<and>
            rng eng' = after_draws gauss (rng eng) (3 * nat (horizon + 1)))"
  using episode_outputs_view [OF assms] step_weather_and_demand_order [of gauss]
  by blast

lemma demo_after_draws: "after_draws demo_gauss g n = g + n"
  by (induction n arbitrary: g) (simp_all add: demo_gauss_def)

theorem episode_deterministic_witness:
  "num_controllable_plants (SmartGridEnv_init None :: nat SmartGridEnv)
     = num_controllable_plants demo_other_env \<and>
   forecast_horizon (SmartGridEnv_init None :: nat SmartGridEnv)
     = forecast_horizon demo_other_env \<and>
   max_steps (SmartGridEnv_init None :: nat SmartGridEnv) = max_steps demo_other_env \<and>
   episode (SmartGridEnv_init None :: nat SmartGridEnv) \<noteq> episode demo_other_env \<and>
   episode_outputs demo_default_rng demo_gauss (SmartGridEnv_init None) (Some 7) 0
       [[1, 1/2, 1], [0, 0, 0]]
     = episode_outputs demo_default_rng demo_gauss demo_other_env (Some 7) 5
       [[1, 1/2, 1], [0, 0, 0]] \<and>
   \<not> isl (episode_outputs demo_default_rng demo_gauss (SmartGridEnv_init None) (Some 7) 0
            [[1, 1/2, 1], [0, 0, 0]]) \<and>
   step_weather_and_demand demo_gauss (engine (the (episode demo_env))) 1 12
     = Inr (fst demo_weather, snd demo_weather) \<and>
   rng (engine (the (episode demo_env))) = 39 \<and>
   rng (snd demo_weather) = 78"
proof -
  from step_returns [OF demo_env_ready, of "[1, 1/2, 1]" demo_gauss]
  obtain r0 s0 where st: "step demo_gauss demo_env [1, 1/2, 1] = Inr (r0, s0)" "ready s0"
    by auto
  have "snd demo_step = s0"
    unfolding demo_step_def st(1) by simp
  then have rdy: "ready (snd demo_step)"
    using st(2) by (simp only:)
  then have c: "num_controllable_plants (SmartGridEnv_init None :: nat SmartGridEnv)
        = num_controllable_plants demo_other_env"
    "forecast_horizon (SmartGridEnv_init None :: nat SmartGridEnv)
        = forecast_horizon demo_other_env"
    "max_steps (SmartGridEnv_init None :: nat SmartGridEnv) = max_steps demo_other_env"
    "episode (SmartGridEnv_init None :: nat SmartGridEnv) \<noteq> episode demo_other_env"
    by (auto simp add: ready_def demo_other_env_def SmartGridEnv_init_def split: option.splits)
  note t = episode_deterministic [OF c(1,2,3), of demo_default_rng demo_gauss 7 0 "[[1, 1/2, 1], [0, 0, 0]]" 5]
  have "StochasticEngine_init demo_default_rng (Some 7) (0::nat) =
          Inr \<lparr>rng = 7,
               demand = \<lparr>base_profile = demand_profile, noise_volatility = 0.05\<rparr>,
               solar = \<lparr>base_profile = solar_profile, noise_volatility = 0.15\<rparr>,
               wind = \<lparr>base_profile = wind_profile, noise_volatility = 0.25\<rparr>\<rparr>"
    by (simp add: StochasticEngine_init_def demo_default_rng_def)
  from reset_returns [OF this, of "SmartGridEnv_init None" demo_gauss]
  obtain oi s where "reset demo_default_rng demo_gauss (SmartGridEnv_init None) (Some 7) 0
                          = Inr (oi, s)"
    by (auto simp add: SmartGridEnv_init_def)
  then have ok: "\<not> isl (episode_outputs demo_default_rng demo_gauss (SmartGridEnv_init None)
            (Some 7) 0 [[1, 1/2, 1], [0, 0, 0]])"
    by (simp add: episode_outputs_def run_episode_def split_def)
  have fp: "fixed_profiles (engine (the (episode demo_env)))"
    using demo_env_ready by (auto simp add: ready_def split: option.splits)
  from step_weather_and_demand_returns [OF fp, of 12 demo_gauss 1]
  have sw: "step_weather_and_demand demo_gauss (engine (the (episode demo_env))) 1 12
     = Inr (fst demo_weather, snd demo_weather)"
    by (auto simp add: demo_weather_def)
  have r0: "rng (engine (the (episode demo_env))) = 39"
    by code_simp
  from t sw have "rng (snd demo_weather)
      = after_draws demo_gauss (rng (engine (the (episode demo_env)))) (3 * nat (12 + 1))"
    by blast
  then have r1: "rng (snd demo_weather) = 78"
    by (simp add: r0 demo_after_draws)
  from t have eq: "episode_outputs demo_default_rng demo_gauss (SmartGridEnv_init None) (Some 7) 0
       [[1, 1/2, 1], [0, 0, 0]]
     = episode_outputs demo_default_rng demo_gauss demo_other_env (Some 7) 5
       [[1, 1/2, 1], [0, 0, 0]]"
    by blast
  show ?thesis
    using c eq ok sw r0 r1 by blast
qed

end
